theory Spec2Isabelle
  imports Complex_Main "HOL-Library.Sublist" "HOL-Library.Char_ord" "HOL-Library.List_Lexorder"
begin

section \<open>Python values used by the agent\<close>

text \<open>
  Exceptions are values. \<open>AgentError\<close> is the class of \<^verbatim>\<open>evals.py\<close>; the others are the
  built-in classes the modelled code raises and pydantic's \<^verbatim>\<open>ValidationError\<close>, each
  carrying \<^verbatim>\<open>str(e)\<close>. \<open>OtherError\<close> stands for any further \<^verbatim>\<open>Exception\<close> an external
  collaborator raises.
\<close>

datatype error =
    AgentError string
  | ValueError string
  | RuntimeError string
  | AttributeError string
  | KeyError string
  | TypeError string
  | IndexError string
  | ValidationError string
  | OtherError string

text \<open>\<^verbatim>\<open>str(e)\<close>\<close>

fun error_message :: "error \<Rightarrow> string" where
  "error_message (AgentError m) = m"
| "error_message (ValueError m) = m"
| "error_message (RuntimeError m) = m"
| "error_message (AttributeError m) = m"
| "error_message (KeyError m) = m"
| "error_message (TypeError m) = m"
| "error_message (IndexError m) = m"
| "error_message (ValidationError m) = m"
| "error_message (OtherError m) = m"

text \<open>
  What \<^verbatim>\<open>json.loads\<close> produces. A JSON object is a \<^verbatim>\<open>dict\<close>, kept as an association
  list read with \<open>map_of\<close>; a float is carried by its literal, since nothing here computes
  with it.
\<close>

datatype json =
    JNull
  | JBool bool
  | JInt int
  | JFloat string
  | JStr string
  | JArr "json list"
  | JObj "(string \<times> json) list"

type_synonym dict = "(string \<times> json) list"

text \<open>A name between single quotes, as Python's messages print it.\<close>

definition quoted :: "string \<Rightarrow> string" where
  "quoted s = [CHR 0x27] @ s @ [CHR 0x27]"

subsection \<open>Rendering integers: \<^verbatim>\<open>str(n)\<close>\<close>

definition digit :: "nat \<Rightarrow> char" where
  "digit d = char_of (48 + d)"

fun show_nat :: "nat \<Rightarrow> string" where
  "show_nat n = (if n < 10 then [digit n] else show_nat (n div 10) @ [digit (n mod 10)])"

declare show_nat.simps [simp del]

definition show_int :: "int \<Rightarrow> string" where
  "show_int i = (if i < 0 then CHR ''-'' # show_nat (nat (- i)) else show_nat (nat i))"

section \<open>Data model (\<^verbatim>\<open>model.py\<close>)\<close>

text \<open>
  \<^verbatim>\<open>datetime.date\<close>: year, month, day. Python compares dates as the triples
  \<open>(year, month, day)\<close>, lexicographically.
\<close>

record date =
  year :: nat
  month :: nat
  day :: nat

definition date_less :: "date \<Rightarrow> date \<Rightarrow> bool" where
  "date_less a b \<longleftrightarrow>
     year a < year b \<or> (year a = year b \<and> (month a < month b \<or> (month a = month b \<and> day a < day b)))"

definition date_le :: "date \<Rightarrow> date \<Rightarrow> bool" where
  "date_le a b \<longleftrightarrow> date_less a b \<or> a = b"

text \<open>\<^verbatim>\<open>str(date)\<close> is the ISO form \<^verbatim>\<open>YYYY-MM-DD\<close>, zero padded.\<close>

definition zero_pad :: "nat \<Rightarrow> string \<Rightarrow> string" where
  "zero_pad w s = replicate (w - length s) CHR ''0'' @ s"

definition show_date :: "date \<Rightarrow> string" where
  "show_date d = zero_pad 4 (show_nat (year d)) @ ''-'' @ zero_pad 2 (show_nat (month d))
     @ ''-'' @ zero_pad 2 (show_nat (day d))"

text \<open>
  \<^verbatim>\<open>Interest\<close> is an enumeration of \<^verbatim>\<open>utils/data.py\<close>, which is not among the sources; a tag
  is kept by its name.
\<close>

type_synonym Interest = string

text \<open>
  Field names are global in a theory: the \<^verbatim>\<open>name\<close> of an activity is \<open>activity_name\<close> and
  the \<^verbatim>\<open>date\<close> of an itinerary day is \<open>day_date\<close>. A \<^verbatim>\<open>datetime\<close> is a date with a time of
  day.
\<close>

record Traveler =
  name :: string
  age :: int
  interests :: "Interest list"

record VacationInfo =
  travelers :: "Traveler list"
  destination :: string
  date_of_arrival :: date
  date_of_departure :: date
  budget :: int

record Weather =
  temperature :: real
  temperature_unit :: string
  condition :: string

record datetime =
  on_date :: date
  hour :: nat
  minute :: nat
  second :: nat

record Activity =
  activity_id :: string
  activity_name :: string
  start_time :: datetime
  end_time :: datetime
  location :: string
  description :: string
  price :: int
  related_interests :: "Interest list"

record ActivityRecommendation =
  activity :: Activity
  reasons_for_recommendation :: "string list"

record ItineraryDay =
  day_date :: date
  weather :: Weather
  activity_recommendations :: "ActivityRecommendation list"

record TravelPlan =
  city :: string
  start_date :: date
  end_date :: date
  total_cost :: int
  itinerary_days :: "ItineraryDay list"

section \<open>Evaluation suite (\<^verbatim>\<open>evals.py\<close>)\<close>


text \<open>
  An evaluator returns silently or raises. The pure evaluators below return
  \<open>Inr ()\<close> for a pass and \<open>Inl e\<close> for a raise; their console output is left out.
\<close>

definition eval_start_end_dates_match ::
  "VacationInfo \<Rightarrow> TravelPlan \<Rightarrow> string option \<Rightarrow> error + unit" where
  "eval_start_end_dates_match vacation_info final_output traveler_feedback =
     (if date_of_arrival vacation_info \<noteq> start_date final_output
         \<or> date_of_departure vacation_info \<noteq> end_date final_output
      then Inl (AgentError (''Dates do not match: '' @ show_date (date_of_arrival vacation_info)
             @ '' != '' @ show_date (start_date final_output) @ '' or ''
             @ show_date (date_of_departure vacation_info) @ '' != ''
             @ show_date (end_date final_output)))
      else if date_less (end_date final_output) (start_date final_output)
      then Inl (AgentError (''Start date is after end date: '' @ show_date (start_date final_output)
             @ '' > '' @ show_date (end_date final_output)))
      else Inr ())"

text \<open>The nested \<^verbatim>\<open>for\<close> statements of the cost evaluator, adding to a running total.\<close>

fun add_day_prices :: "ActivityRecommendation list \<Rightarrow> int \<Rightarrow> int" where
  "add_day_prices [] actual_total_cost = actual_total_cost"
| "add_day_prices (r # rs) actual_total_cost =
     add_day_prices rs (actual_total_cost + price (activity r))"

fun add_plan_prices :: "ItineraryDay list \<Rightarrow> int \<Rightarrow> int" where
  "add_plan_prices [] actual_total_cost = actual_total_cost"
| "add_plan_prices (d # ds) actual_total_cost =
     add_plan_prices ds (add_day_prices (activity_recommendations d) actual_total_cost)"

definition eval_total_cost_is_accurate ::
  "VacationInfo \<Rightarrow> TravelPlan \<Rightarrow> string option \<Rightarrow> error + unit" where
  "eval_total_cost_is_accurate vacation_info final_output traveler_feedback =
     (let actual_total_cost = add_plan_prices (itinerary_days final_output) 0;
          stated_total_cost = total_cost final_output
      in if actual_total_cost \<noteq> stated_total_cost
         then Inl (AgentError (''Stated total cost does not match calculated total cost: ''
                @ show_int actual_total_cost @ '' != '' @ show_int stated_total_cost))
         else Inr ())"

text \<open>The prices of all scheduled activities of a plan, day after day.\<close>

definition scheduled_prices :: "TravelPlan \<Rightarrow> int list" where
  "scheduled_prices p =
     map (\<lambda>r. price (activity r)) (concat (map activity_recommendations (itinerary_days p)))"








section \<open>Validation of the vacation input (\<^verbatim>\<open>model.py\<close>)\<close>

text \<open>
  \<^verbatim>\<open>VacationInfo\<close> declares four field constraints: \<^verbatim>\<open>min_items=1\<close> on \<^verbatim>\<open>travelers\<close>,
  \<^verbatim>\<open>gt=date(2025,6,9)\<close> on \<^verbatim>\<open>date_of_arrival\<close>, \<^verbatim>\<open>lt=date(2025,6,16)\<close> on
  \<^verbatim>\<open>date_of_departure\<close> and \<^verbatim>\<open>gt=0\<close> on \<^verbatim>\<open>budget\<close>; it declares no validator that
  relates two fields. Construction checks every field and reports the failing ones
  together. The candidate field values are taken as already of their types (a missing
  field or a value of the wrong type is excluded by typing); the result is the list of
  the fields that fail, in declaration order, or the constructed value.
\<close>

definition arrival_lower_bound :: date where
  "arrival_lower_bound = \<lparr>year = 2025, month = 6, day = 9\<rparr>"

definition departure_upper_bound :: date where
  "departure_upper_bound = \<lparr>year = 2025, month = 6, day = 16\<rparr>"

definition VacationInfo_field_errors :: "VacationInfo \<Rightarrow> string list" where
  "VacationInfo_field_errors v =
     (if length (travelers v) < 1 then [''travelers''] else [])
     @ (if date_less arrival_lower_bound (date_of_arrival v) then [] else [''date_of_arrival''])
     @ (if date_less (date_of_departure v) departure_upper_bound then [] else [''date_of_departure''])
     @ (if 0 < budget v then [] else [''budget''])"

definition VacationInfo_model_validate :: "VacationInfo \<Rightarrow> string list + VacationInfo" where
  "VacationInfo_model_validate v =
     (case VacationInfo_field_errors v of [] \<Rightarrow> Inr v | errs \<Rightarrow> Inl errs)"

section \<open>Mocked data sources (\<^verbatim>\<open>tools.py\<close>)\<close>

text \<open>
  \<^verbatim>\<open>ACTIVITY_CALENDAR\<close> and \<^verbatim>\<open>WEATHER_FORECAST\<close> are lists of dictionaries defined in
  \<^verbatim>\<open>utils/data.py\<close>, which is not among the sources: the functions take them as
  parameters. \<^verbatim>\<open>datetime.strptime(date, "%Y-%m-%d")\<close> of the standard library is taken
  as the parameter \<open>strptime_ok\<close>, true when it returns and false when it raises
  \<^verbatim>\<open>ValueError\<close>.
\<close>

definition py_type_name :: "json \<Rightarrow> string" where
  "py_type_name v = (case v of JNull \<Rightarrow> ''NoneType'' | JBool b \<Rightarrow> ''bool'' | JInt i \<Rightarrow> ''int''
     | JFloat f \<Rightarrow> ''float'' | JStr s \<Rightarrow> ''str'' | JArr xs \<Rightarrow> ''list'' | JObj kvs \<Rightarrow> ''dict'')"

text \<open>\<^verbatim>\<open>d[key]\<close> on a dictionary.\<close>

definition subscript :: "dict \<Rightarrow> string \<Rightarrow> error + json" where
  "subscript d k = (case map_of d k of None \<Rightarrow> Inl (KeyError (quoted k))
                                     | Some v \<Rightarrow> Inr v)"

text \<open>The truth value of an optional string or list argument: \<^verbatim>\<open>None\<close> and the empty one are false.\<close>

definition truthy :: "'a list option \<Rightarrow> bool" where
  "truthy x = (case x of None \<Rightarrow> False | Some s \<Rightarrow> s \<noteq> [])"

text \<open>\<^verbatim>\<open>event["start_time"].startswith(date)\<close>\<close>

definition starts_on :: "string \<Rightarrow> dict \<Rightarrow> error + bool" where
  "starts_on d event =
     (case subscript event ''start_time'' of
        Inl e \<Rightarrow> Inl e
      | Inr (JStr s) \<Rightarrow> Inr (prefix d s)
      | Inr v \<Rightarrow> Inl (AttributeError (quoted (py_type_name v)
                   @ '' object has no attribute '' @ quoted ''startswith'')))"

text \<open>\<^verbatim>\<open>event["activity_id"] in activity_ids\<close>\<close>

definition id_among :: "string list \<Rightarrow> dict \<Rightarrow> error + bool" where
  "id_among ids event =
     (case subscript event ''activity_id'' of
        Inl e \<Rightarrow> Inl e
      | Inr v \<Rightarrow> Inr (v \<in> set (map JStr ids)))"

text \<open>A list comprehension whose condition may raise.\<close>

fun comprehension :: "(dict \<Rightarrow> error + bool) \<Rightarrow> dict list \<Rightarrow> error + dict list" where
  "comprehension c [] = Inr []"
| "comprehension c (event # events) =
     (case c event of
        Inl e \<Rightarrow> Inl e
      | Inr keep \<Rightarrow>
          (case comprehension c events of
             Inl e \<Rightarrow> Inl e
           | Inr rest \<Rightarrow> Inr (if keep then event # rest else rest)))"

definition call_activities_api_mocked ::
  "(string \<Rightarrow> bool) \<Rightarrow> dict list \<Rightarrow> string option \<Rightarrow> string option \<Rightarrow> string list option
     \<Rightarrow> error + dict list" where
  "call_activities_api_mocked strptime_ok ACTIVITY_CALENDAR date_arg city_arg activity_ids =
     (if truthy city_arg \<and> city_arg \<noteq> Some ''AgentsVille'' then Inr []
      else if truthy date_arg \<and> \<not> strptime_ok (the date_arg) then Inr []
      else if truthy date_arg
                \<and> (the date_arg < ''2025-06-10'' \<or> the date_arg > ''2025-06-15'') then Inr []
      else
        (case (if truthy date_arg then comprehension (starts_on (the date_arg)) ACTIVITY_CALENDAR
               else Inr ACTIVITY_CALENDAR) of
           Inl e \<Rightarrow> Inl e
         | Inr activities \<Rightarrow>
             (if truthy activity_ids then comprehension (id_among (the activity_ids)) activities
              else Inr activities)))"

text \<open>
  The lookup by id returns the first event with the id, and \<^verbatim>\<open>None\<close> when the loop ends
  without one.
\<close>

fun call_activity_by_id_api_mocked :: "dict list \<Rightarrow> string \<Rightarrow> error + dict option" where
  "call_activity_by_id_api_mocked [] activity_id_arg = Inr None"
| "call_activity_by_id_api_mocked (event # events) activity_id_arg =
     (case subscript event ''activity_id'' of
        Inl e \<Rightarrow> Inl e
      | Inr v \<Rightarrow> if v = JStr activity_id_arg then Inr (Some event)
                 else call_activity_by_id_api_mocked events activity_id_arg)"

text \<open>\<^verbatim>\<open>next((forecast for forecast in WEATHER_FORECAST if forecast["date"] == date), {})\<close>\<close>

fun first_forecast :: "string \<Rightarrow> dict list \<Rightarrow> error + dict" where
  "first_forecast d [] = Inr []"
| "first_forecast d (forecast # forecasts) =
     (case subscript forecast ''date'' of
        Inl e \<Rightarrow> Inl e
      | Inr v \<Rightarrow> if v = JStr d then Inr forecast else first_forecast d forecasts)"

definition call_weather_api_mocked ::
  "(string \<Rightarrow> bool) \<Rightarrow> dict list \<Rightarrow> string \<Rightarrow> string \<Rightarrow> error + dict" where
  "call_weather_api_mocked strptime_ok WEATHER_FORECAST date_arg city_arg =
     (if city_arg \<noteq> ''AgentsVille'' then Inr []
      else if \<not> strptime_ok date_arg then Inr []
      else if date_arg < ''2025-06-10'' \<or> date_arg > ''2025-06-15'' then Inr []
      else first_forecast date_arg WEATHER_FORECAST)"

section \<open>Python string operations used by the revision loop\<close>

text \<open>\<^verbatim>\<open>sep in s\<close>\<close>

fun contains :: "string \<Rightarrow> string \<Rightarrow> bool" where
  "contains sep [] = (sep = [])"
| "contains sep (c # cs) = (prefix sep (c # cs) \<or> contains sep cs)"

text \<open>The text before and the text after the leftmost occurrence of \<open>sep\<close>.\<close>

fun split_at_first :: "string \<Rightarrow> string \<Rightarrow> (string \<times> string) option" where
  "split_at_first sep [] = (if sep = [] then Some ([], []) else None)"
| "split_at_first sep (c # cs) =
     (if prefix sep (c # cs) then Some ([], drop (length sep) (c # cs))
      else (case split_at_first sep cs of None \<Rightarrow> None | Some (a, b) \<Rightarrow> Some (c # a, b)))"

text \<open>
  \<^verbatim>\<open>s.split(sep)\<close> for a non-empty separator: the pieces between the occurrences of
  \<open>sep\<close>, found from the left without overlap. (Python raises on an empty separator;
  the loop splits at a literal.)
\<close>

function py_split :: "string \<Rightarrow> string \<Rightarrow> string list" where
  "py_split sep s =
     (if sep = [] then [s]
      else (case split_at_first sep s of None \<Rightarrow> [s] | Some (a, b) \<Rightarrow> a # py_split sep b))"
  by pat_completeness auto
termination
proof (relation "measure (\<lambda>(sep, s). length s)")
  show "wf (measure (\<lambda>(sep, s). length s))" by simp
next
  fix sep s :: string and x a b
  assume nonempty: "sep \<noteq> []" and found: "split_at_first sep s = Some x" and x: "(a, b) = x"
  have "split_at_first sep t = Some (u, v) \<Longrightarrow> length t = length u + length sep + length v"
    for t u v
  proof (induction t arbitrary: u)
    case Nil
    then show ?case by (simp split: if_splits)
  next
    case (Cons c cs)
    show ?case
    proof (cases "prefix sep (c # cs)")
      case True
      then have "length sep \<le> length (c # cs)" by (rule prefix_length_le)
      with True Cons.prems show ?thesis by auto
    next
      case False
      with Cons.prems obtain u' where "split_at_first sep cs = Some (u', v)" and "u = c # u'"
        by (auto split: option.splits)
      with Cons.IH[of u'] show ?thesis by simp
    qed
  qed
  from this[of s a b] found x nonempty
  show "((sep, b), (sep, s)) \<in> measure (\<lambda>(sep, s). length s)" by (cases sep) auto
qed

declare py_split.simps [simp del]

text \<open>\<^verbatim>\<open>resp.split("ACTION:")[1]\<close>: the second piece, or \<^verbatim>\<open>IndexError\<close>.\<close>

definition second_piece :: "string \<Rightarrow> string \<Rightarrow> error + string" where
  "second_piece sep s =
     (case py_split sep s of
        a # b # rest \<Rightarrow> Inr b
      | _ \<Rightarrow> Inl (IndexError ''list index out of range''))"

text \<open>\<^verbatim>\<open>s.strip()\<close>: the white space of Python among the characters below 256.\<close>

definition is_space :: "char \<Rightarrow> bool" where
  "is_space c \<longleftrightarrow> c \<in> set [CHR 0x09, CHR 0x0A, CHR 0x0B, CHR 0x0C, CHR 0x0D, CHR 0x1C, CHR 0x1D,
     CHR 0x1E, CHR 0x1F, CHR 0x20, CHR 0x85, CHR 0xA0]"

definition strip :: "string \<Rightarrow> string" where
  "strip s = rev (dropWhile is_space (rev (dropWhile is_space s)))"

section \<open>Chat agent (\<^verbatim>\<open>model.py\<close>)\<close>

text \<open>
  A message is a dictionary with a role and a content; the content of an assistant
  message is what the completion call returned, which may be \<^verbatim>\<open>None\<close>. The agent is its
  message list together with the world \<open>'w\<close> that the language model and the tools act on.
\<close>

record message =
  role :: string
  content :: "string option"

record 'w agent =
  messages :: "message list"
  world :: 'w

definition add_message :: "string \<Rightarrow> string option \<Rightarrow> 'w agent \<Rightarrow> error + 'w agent" where
  "add_message r c self =
     (if r \<notin> set [''system'', ''user'', ''assistant'']
      then Inl (ValueError (''Invalid role: '' @ r))
      else Inr (self\<lparr>messages := messages self @ [\<lparr>role = r, content = c\<rparr>]\<rparr>))"

text \<open>
  What the agent takes from outside the repository's sources:
  \<^item> \<open>complete\<close>: \<^verbatim>\<open>do_chat_completion\<close> with the agent's client and model, on the message
    list; it returns the completion's content or raises;
  \<^item> \<open>repair_json\<close>: the function of the \<^verbatim>\<open>json_repair\<close> package;
  \<^item> \<open>json_loads\<close>: \<^verbatim>\<open>json.loads\<close>, with \<open>None\<close> for \<^verbatim>\<open>JSONDecodeError\<close>;
  \<^item> \<open>model_validate\<close>: \<^verbatim>\<open>TravelPlan.model_validate\<close> of pydantic;
  \<^item> \<open>model_dump_json\<close>: \<^verbatim>\<open>TravelPlan.model_dump_json(indent=2)\<close>;
  \<^item> \<open>tools\<close>: \<^verbatim>\<open>ALL_TOOLS\<close>, each tool with its \<^verbatim>\<open>__name__\<close>; a tool body called with the
    argument dictionary returns the text of its response or raises, and may change the
    world.
\<close>

type_synonym 'w tool = "string \<times> (dict \<Rightarrow> 'w \<Rightarrow> (error + string) \<times> 'w)"

record 'w env =
  complete :: "message list \<Rightarrow> 'w \<Rightarrow> (error + string option) \<times> 'w"
  repair_json :: "string \<Rightarrow> string"
  json_loads :: "string \<Rightarrow> json option"
  model_validate :: "json \<Rightarrow> error + TravelPlan"
  model_dump_json :: "TravelPlan \<Rightarrow> string"
  tools :: "'w tool list"

definition get_response :: "'w env \<Rightarrow> 'w agent \<Rightarrow> (error + string option) \<times> 'w agent" where
  "get_response env self =
     (case complete env (messages self) (world self) of
        (Inl e, w') \<Rightarrow> (Inl e, self\<lparr>world := w'\<rparr>)
      | (Inr response, w') \<Rightarrow>
          (case add_message ''assistant'' response (self\<lparr>world := w'\<rparr>) of
             Inl e \<Rightarrow> (Inl e, self\<lparr>world := w'\<rparr>)
           | Inr self' \<Rightarrow> (Inr response, self')))"

section \<open>Tool dispatcher (\<^verbatim>\<open>ItineraryRevisionAgent.get_observation_string\<close>)\<close>

text \<open>\<^verbatim>\<open>key in obj\<close>, \<^verbatim>\<open>obj[key]\<close> and \<^verbatim>\<open>obj.get(key, default)\<close> on a parsed JSON value.\<close>

definition py_in :: "string \<Rightarrow> json \<Rightarrow> error + bool" where
  "py_in k obj =
     (case obj of
        JObj d \<Rightarrow> Inr (map_of d k \<noteq> None)
      | JArr xs \<Rightarrow> Inr (JStr k \<in> set xs)
      | JStr s \<Rightarrow> Inr (contains k s)
      | _ \<Rightarrow> Inl (TypeError (''argument of type '' @ quoted (py_type_name obj) @ '' is not iterable'')))"

definition py_getitem :: "json \<Rightarrow> string \<Rightarrow> error + json" where
  "py_getitem obj k =
     (case obj of
        JObj d \<Rightarrow> subscript d k
      | JArr xs \<Rightarrow> Inl (TypeError ''list indices must be integers or slices, not str'')
      | JStr s \<Rightarrow> Inl (TypeError (''string indices must be integers, not '' @ quoted ''str''))
      | _ \<Rightarrow> Inl (TypeError (quoted (py_type_name obj) @ '' object is not subscriptable'')))"

definition py_get :: "json \<Rightarrow> string \<Rightarrow> json \<Rightarrow> error + json" where
  "py_get obj k dflt =
     (case obj of
        JObj d \<Rightarrow> Inr (case map_of d k of None \<Rightarrow> dflt | Some v \<Rightarrow> v)
      | _ \<Rightarrow> Inl (AttributeError (quoted (py_type_name obj) @ '' object has no attribute ''
                 @ quoted ''get'')))"

text \<open>\<^verbatim>\<open>type(x)\<close> inside an f-string.\<close>

definition show_type :: "json \<Rightarrow> string" where
  "show_type v = ''<class '' @ quoted (py_type_name v) @ ''>''"

text \<open>
  The call \<^verbatim>\<open>tool_fn(**arguments)\<close> inside \<^verbatim>\<open>try\<close>: every exception of the tool body
  becomes an observation.
\<close>

definition call_tool :: "'w tool \<Rightarrow> dict \<Rightarrow> 'w \<Rightarrow> string \<times> 'w" where
  "call_tool tool_fn arguments w =
     (case snd tool_fn arguments w of
        (Inr tool_response, w') \<Rightarrow>
          (''OBSERVATION: Tool '' @ fst tool_fn @ '' called successfully with response: ''
             @ tool_response, w')
      | (Inl e, w') \<Rightarrow>
          (''OBSERVATION: Error occurred while calling tool '' @ fst tool_fn @ '': ''
             @ error_message e, w'))"

definition get_observation_string ::
  "'w tool list \<Rightarrow> json \<Rightarrow> 'w \<Rightarrow> (error + string) \<times> 'w" where
  "get_observation_string all_tools tool_call_obj w =
     (case py_in ''tool_name'' tool_call_obj of
        Inl e \<Rightarrow> (Inl e, w)
      | Inr False \<Rightarrow> (Inr ''OBSERVATION: No tool name specified.'', w)
      | Inr True \<Rightarrow>
     (case py_in ''arguments'' tool_call_obj of
        Inl e \<Rightarrow> (Inl e, w)
      | Inr False \<Rightarrow> (Inr ''OBSERVATION: No arguments specified.'', w)
      | Inr True \<Rightarrow>
     (case py_getitem tool_call_obj ''arguments'' of
        Inl e \<Rightarrow> (Inl e, w)
      | Inr (JObj arguments) \<Rightarrow>
          (case py_getitem tool_call_obj ''tool_name'' of
             Inl e \<Rightarrow> (Inl e, w)
           | Inr (JStr tool_name) \<Rightarrow>
               (case find (\<lambda>tool. fst tool = tool_name) all_tools of
                  None \<Rightarrow> (Inr (''OBSERVATION: Unknown tool name '' @ quoted tool_name
                              @ '' in action string.''), w)
                | Some tool_fn \<Rightarrow>
                    (case call_tool tool_fn arguments w of (obs, w') \<Rightarrow> (Inr obs, w')))
           | Inr v \<Rightarrow> (Inr (''OBSERVATION: Tool name should be a string, got ''
                           @ show_type v @ '' instead.''), w))
      | Inr v \<Rightarrow> (Inr (''OBSERVATION: Arguments should be a dictionary, got ''
                      @ show_type v @ '' instead.''), w))))"

section \<open>Revision loop (\<^verbatim>\<open>ItineraryRevisionAgent.run_react_cycle\<close>)\<close>

text \<open>
  One pass through the body of the \<^verbatim>\<open>for\<close> loop ends in one of three ways: the body
  reaches its end or a \<^verbatim>\<open>continue\<close> (with the value of \<^verbatim>\<open>resp\<close>), it returns the plan,
  or an exception leaves it.
\<close>

datatype 'w step_result =
    Continue string "'w agent"
  | Return TravelPlan "'w agent"
  | Raise error "'w agent"

fun state_of :: "'w step_result \<Rightarrow> 'w agent" where
  "state_of (Continue r self) = self"
| "state_of (Return p self) = self"
| "state_of (Raise e self) = self"

text \<open>\<^verbatim>\<open>self.add_message(role="user", content=...)\<close> followed by the next iteration.\<close>

definition observe :: "string \<Rightarrow> string \<Rightarrow> 'w agent \<Rightarrow> 'w step_result" where
  "observe resp text self =
     (case add_message ''user'' (Some text) self of
        Inl e \<Rightarrow> Raise e self
      | Inr self' \<Rightarrow> Continue resp self')"

text \<open>
  The payload of a final answer and its validation, the body of the inner \<^verbatim>\<open>try\<close>:
  \<^verbatim>\<open>TravelPlan.model_validate(tool_call_obj["arguments"].get("final_output", tool_call_obj["arguments"]))\<close>
\<close>

definition validate_final_answer :: "'w env \<Rightarrow> json \<Rightarrow> error + TravelPlan" where
  "validate_final_answer env tool_call_obj =
     (case py_getitem tool_call_obj ''arguments'' of
        Inl e \<Rightarrow> Inl e
      | Inr arguments \<Rightarrow>
          (case py_get arguments ''final_output'' arguments of
             Inl e \<Rightarrow> Inl e
           | Inr payload \<Rightarrow> model_validate env payload))"

text \<open>
  The body of the loop, in three parts: from the parsed action on
  (\<^verbatim>\<open>tool_name = tool_call_obj.get("tool_name", None)\<close> to the end), from the response
  to the parsed action, and the request for the response.
\<close>

definition act :: "'w env \<Rightarrow> string \<Rightarrow> json \<Rightarrow> 'w agent \<Rightarrow> 'w step_result" where
  "act env resp tool_call_obj self1 =
     (case py_get tool_call_obj ''tool_name'' JNull of
        Inl e \<Rightarrow> Raise e self1
      | Inr tool_name \<Rightarrow>
          if tool_name = JStr ''final_answer_tool''
          then
            (case validate_final_answer env tool_call_obj of
               Inr new_travel_plan \<Rightarrow> Return new_travel_plan self1
             | Inl e \<Rightarrow> observe resp (''Error validating final answer: '' @ error_message e) self1)
          else
            (case get_observation_string (tools env) tool_call_obj (world self1) of
               (Inl e, w') \<Rightarrow> Raise e (self1\<lparr>world := w'\<rparr>)
             | (Inr observation_string, w') \<Rightarrow>
                 observe resp observation_string (self1\<lparr>world := w'\<rparr>)))"

definition parse_and_act :: "'w env \<Rightarrow> string \<Rightarrow> 'w agent \<Rightarrow> 'w step_result" where
  "parse_and_act env resp self1 =
     (if \<not> contains ''ACTION:'' resp
      then observe resp ''No action found in response.'' self1
      else
        (case second_piece ''ACTION:'' resp of
           Inl e \<Rightarrow> Raise e self1
         | Inr piece \<Rightarrow>
             (let action_string = repair_json env (strip piece) in
              case json_loads env action_string of
                None \<Rightarrow> observe resp (''Invalid JSON in action string: '' @ action_string) self1
              | Some tool_call_obj \<Rightarrow> act env resp tool_call_obj self1)))"

text \<open>\<^verbatim>\<open>self.get_response(...) or ""\<close>\<close>

definition resp_of :: "string option \<Rightarrow> string" where
  "resp_of response = (case response of None \<Rightarrow> [] | Some r \<Rightarrow> r)"

definition react_step :: "'w env \<Rightarrow> 'w agent \<Rightarrow> 'w step_result" where
  "react_step env self =
     (case get_response env self of
        (Inl e, self1) \<Rightarrow> Raise e self1
      | (Inr response, self1) \<Rightarrow> parse_and_act env (resp_of response) self1)"

text \<open>\<^verbatim>\<open>f"{resp}"\<close> for the variable that starts as \<^verbatim>\<open>None\<close>.\<close>

definition show_resp :: "string option \<Rightarrow> string" where
  "show_resp resp = (case resp of None \<Rightarrow> ''None'' | Some r \<Rightarrow> r)"

definition exhausted :: "int \<Rightarrow> string option \<Rightarrow> error" where
  "exhausted max_steps resp =
     RuntimeError (''ReAct cycle did not complete within '' @ show_int max_steps
       @ '' steps. Last response: '' @ show_resp resp)"

text \<open>
  The \<^verbatim>\<open>for step in range(max_steps)\<close> loop with the \<^verbatim>\<open>raise\<close> after it: \<open>remaining\<close>
  counts the iterations still to run.
\<close>

fun react_loop ::
  "'w env \<Rightarrow> int \<Rightarrow> nat \<Rightarrow> string option \<Rightarrow> 'w agent \<Rightarrow> (error + TravelPlan) \<times> 'w agent" where
  "react_loop env max_steps 0 resp self = (Inl (exhausted max_steps resp), self)"
| "react_loop env max_steps (Suc remaining) resp self =
     (case react_step env self of
        Continue r self' \<Rightarrow> react_loop env max_steps remaining (Some r) self'
      | Return new_travel_plan self' \<Rightarrow> (Inr new_travel_plan, self')
      | Raise e self' \<Rightarrow> (Inl e, self'))"

definition run_react_cycle ::
  "'w env \<Rightarrow> 'w agent \<Rightarrow> TravelPlan \<Rightarrow> int \<Rightarrow> (error + TravelPlan) \<times> 'w agent" where
  "run_react_cycle env self original_travel_plan max_steps =
     (case add_message ''user''
             (Some (''Here is the itinerary for revision:'' @ [CHR 0x0A]
                @ model_dump_json env original_travel_plan)) self of
        Inl e \<Rightarrow> (Inl e, self)
      | Inr self0 \<Rightarrow> react_loop env max_steps (nat max_steps) None self0)"


text \<open>The roles a message may carry.\<close>

definition valid_role :: "message \<Rightarrow> bool" where
  "valid_role m \<longleftrightarrow> role m \<in> set [''system'', ''user'', ''assistant'']"

section \<open>Notions used to state the properties of the loop\<close>

text \<open>The agent after an assistant message and a new world, and after a user message.\<close>

definition answered :: "'w agent \<Rightarrow> string option \<Rightarrow> 'w \<Rightarrow> 'w agent" where
  "answered self response w' =
     self\<lparr>messages := messages self @ [\<lparr>role = ''assistant'', content = response\<rparr>], world := w'\<rparr>"

definition observed :: "'w agent \<Rightarrow> string \<Rightarrow> 'w agent" where
  "observed self text =
     self\<lparr>messages := messages self @ [\<lparr>role = ''user'', content = Some text\<rparr>]\<rparr>"

text \<open>
  The value that \<^verbatim>\<open>json.loads\<close> gives for the action of a response, if the response has
  the marker and its action text parses.
\<close>

definition parsed_action :: "'w env \<Rightarrow> string \<Rightarrow> json option" where
  "parsed_action env resp =
     (if contains ''ACTION:'' resp
      then (case second_piece ''ACTION:'' resp of
              Inl e \<Rightarrow> None
            | Inr piece \<Rightarrow> json_loads env (repair_json env (strip piece)))
      else None)"

text \<open>The payload that a final answer with the argument mapping \<open>args\<close> submits.\<close>

definition final_payload :: "dict \<Rightarrow> json" where
  "final_payload args = (case map_of args ''final_output'' of None \<Rightarrow> JObj args | Some p \<Rightarrow> p)"


text \<open>The agent that enters the loop: the conversation with the plan to revise added.\<close>

definition seeded :: "'w env \<Rightarrow> 'w agent \<Rightarrow> TravelPlan \<Rightarrow> 'w agent" where
  "seeded env self original_travel_plan =
     observed self (''Here is the itinerary for revision:'' @ [CHR 0x0A]
        @ model_dump_json env original_travel_plan)"

section \<open>Sample values for concrete evaluations\<close>

definition sample_vacation :: VacationInfo where
  "sample_vacation = \<lparr>travelers = [\<lparr>name = ''Yuri'', age = 30, interests = [''art'']\<rparr>],
     destination = ''AgentsVille'',
     date_of_arrival = \<lparr>year = 2025, month = 6, day = 10\<rparr>,
     date_of_departure = \<lparr>year = 2025, month = 6, day = 12\<rparr>, budget = 130\<rparr>"

definition sample_activity :: Activity where
  "sample_activity = \<lparr>activity_id = ''event-2025-06-10-0'', activity_name = ''Gallery tour'',
     start_time = \<lparr>on_date = \<lparr>year = 2025, month = 6, day = 10\<rparr>, hour = 9, minute = 0, second = 0\<rparr>,
     end_time = \<lparr>on_date = \<lparr>year = 2025, month = 6, day = 10\<rparr>, hour = 11, minute = 0, second = 0\<rparr>,
     location = ''AgentsVille'', description = ''A guided tour'', price = 20,
     related_interests = [''art'']\<rparr>"

definition sample_plan :: "int \<Rightarrow> TravelPlan" where
  "sample_plan stated = \<lparr>city = ''AgentsVille'',
     start_date = \<lparr>year = 2025, month = 6, day = 10\<rparr>,
     end_date = \<lparr>year = 2025, month = 6, day = 12\<rparr>,
     total_cost = stated,
     itinerary_days = [\<lparr>day_date = \<lparr>year = 2025, month = 6, day = 10\<rparr>,
        weather = \<lparr>temperature = 31, temperature_unit = ''Celsius'', condition = ''clear''\<rparr>,
        activity_recommendations =
          [\<lparr>activity = sample_activity, reasons_for_recommendation = [''Yuri likes art'']\<rparr>,
           \<lparr>activity = sample_activity\<lparr>price := 15\<rparr>, reasons_for_recommendation = []\<rparr>]\<rparr>]\<rparr>"



definition reversed_vacation :: VacationInfo where
  "reversed_vacation = sample_vacation\<lparr>date_of_arrival := \<lparr>year = 2025, month = 6, day = 14\<rparr>,
     date_of_departure := \<lparr>year = 2025, month = 6, day = 11\<rparr>\<rparr>"

text \<open>
  A stand-in for the format check in concrete evaluations: four digits, a dash, two digits,
  a dash, two digits. Like the real one it rejects the empty string.
\<close>

definition sample_strptime_ok :: "string \<Rightarrow> bool" where
  "sample_strptime_ok s \<longleftrightarrow>
     length s = 10 \<and> s ! 4 = CHR ''-'' \<and> s ! 7 = CHR ''-''
     \<and> (\<forall>i \<in> {0, 1, 2, 3, 5, 6, 8, 9}. s ! i \<in> set ''0123456789'')"

definition sample_calendar :: "dict list" where
  "sample_calendar =
     [[(''activity_id'', JStr ''event-2025-06-10-0''), (''name'', JStr ''Gallery tour''),
       (''start_time'', JStr ''2025-06-10 09:00''), (''end_time'', JStr ''2025-06-10 11:00''),
       (''location'', JStr ''AgentsVille''), (''description'', JStr ''A guided tour''),
       (''price'', JInt 20), (''related_interests'', JArr [JStr ''art''])]]"

definition sample_forecast :: "dict list" where
  "sample_forecast =
     [[(''date'', JStr ''2025-06-10''), (''city'', JStr ''AgentsVille''),
       (''temperature'', JInt 31), (''temperature_unit'', JStr ''celsius''),
       (''condition'', JStr ''clear'')]]"

text \<open>
  Stand-ins for the external collaborators in concrete runs. The world counts the
  completions requested and the tool bodies run. The language model answers from a
  script; the parser knows the action texts of the script; validation accepts a mapping
  with an integer \<^verbatim>\<open>total_cost\<close>.
\<close>

record sample_world =
  completions :: nat
  tool_runs :: nat

definition dquoted :: "string \<Rightarrow> string" where
  "dquoted s = [CHR 0x22] @ s @ [CHR 0x22]"

definition scripted :: "string option list \<Rightarrow> message list \<Rightarrow> sample_world
    \<Rightarrow> (error + string option) \<times> sample_world" where
  "scripted replies msgs w =
     (if completions w < length replies
      then (Inr (replies ! completions w), w\<lparr>completions := Suc (completions w)\<rparr>)
      else (Inl (OtherError ''connection lost''), w))"

definition calculator_action :: "string \<Rightarrow> string" where
  "calculator_action expr = ''{'' @ dquoted ''tool_name'' @ '': '' @ dquoted ''calculator_tool'' @ '', ''
     @ dquoted ''arguments'' @ '': {'' @ dquoted ''input_expression'' @ '': '' @ dquoted expr @ ''}}''"

definition final_action :: "string \<Rightarrow> string" where
  "final_action field = ''{'' @ dquoted ''tool_name'' @ '': '' @ dquoted ''final_answer_tool'' @ '', ''
     @ dquoted ''arguments'' @ '': {'' @ dquoted ''final_output'' @ '': {'' @ dquoted field
     @ '': 35}}}''"

definition bare_final_action :: string where
  "bare_final_action = ''{'' @ dquoted ''tool_name'' @ '': '' @ dquoted ''final_answer_tool'' @ ''}''"

definition tool_call :: "string \<Rightarrow> dict \<Rightarrow> dict" where
  "tool_call tname args = [(''tool_name'', JStr tname), (''arguments'', JObj args)]"

definition sample_json_loads :: "string \<Rightarrow> json option" where
  "sample_json_loads s =
     (if s = ''[1, 2]'' then Some (JArr [JInt 1, JInt 2])
      else if s = calculator_action ''1+1''
        then Some (JObj (tool_call ''calculator_tool'' [(''input_expression'', JStr ''1+1'')]))
      else if s = final_action ''total_cost''
        then Some (JObj (tool_call ''final_answer_tool''
               [(''final_output'', JObj [(''total_cost'', JInt 35)])]))
      else if s = final_action ''cost''
        then Some (JObj (tool_call ''final_answer_tool''
               [(''final_output'', JObj [(''cost'', JInt 35)])]))
      else if s = bare_final_action
        then Some (JObj [(''tool_name'', JStr ''final_answer_tool'')])
      else None)"

definition sample_model_validate :: "json \<Rightarrow> error + TravelPlan" where
  "sample_model_validate payload =
     (case payload of
        JObj kvs \<Rightarrow>
          (case map_of kvs ''total_cost'' of
             Some (JInt c) \<Rightarrow> Inr (sample_plan c)
           | _ \<Rightarrow> Inl (ValidationError ''total_cost: Field required''))
      | _ \<Rightarrow> Inl (ValidationError ''Input should be a valid dictionary''))"

definition sample_calculator :: "dict \<Rightarrow> sample_world \<Rightarrow> (error + string) \<times> sample_world" where
  "sample_calculator args w =
     (if map_of args ''input_expression'' = Some (JStr ''1+1'')
      then (Inr ''2.0'', w\<lparr>tool_runs := Suc (tool_runs w)\<rparr>)
      else (Inl (OtherError ''division by zero''), w\<lparr>tool_runs := Suc (tool_runs w)\<rparr>))"

definition sample_tools :: "sample_world tool list" where
  "sample_tools = [(''calculator_tool'', sample_calculator)]"

definition sample_env :: "string option list \<Rightarrow> sample_world env" where
  "sample_env replies =
     \<lparr>complete = scripted replies, repair_json = (\<lambda>s. s), json_loads = sample_json_loads,
      model_validate = sample_model_validate, model_dump_json = (\<lambda>p. ''{}''),
      tools = sample_tools\<rparr>"

definition sample_agent :: "sample_world agent" where
  "sample_agent =
     \<lparr>messages = [\<lparr>role = ''system'', content = Some ''You revise itineraries.''\<rparr>],
      world = \<lparr>completions = 0, tool_runs = 0\<rparr>\<rparr>"

definition fresh_world :: sample_world where
  "fresh_world = \<lparr>completions = 0, tool_runs = 0\<rparr>"

definition list_reply :: string where
  "list_reply = ''THOUGHT: done. ACTION: [1, 2]''"

definition plain_reply :: string where
  "plain_reply = ''I think the plan is fine.''"

definition wrong_final_reply :: string where
  "wrong_final_reply = ''THOUGHT: finished. ACTION: '' @ final_action ''cost''"

definition good_final_reply :: string where
  "good_final_reply = ''THOUGHT: finished. ACTION: '' @ final_action ''total_cost''"

definition bare_final_reply :: string where
  "bare_final_reply = ''ACTION: '' @ bare_final_action"

section \<open>Verification\<close>

lemma date_order_total: "\<not> date_less b a \<longleftrightarrow> date_le a b"
  by (cases a; cases b) (auto simp: date_less_def date_le_def)

lemma add_day_prices_sum:
  "add_day_prices rs acc = acc + sum_list (map (\<lambda>r. price (activity r)) rs)"
  by (induction rs arbitrary: acc) simp_all

lemma add_plan_prices_sum:
  "add_plan_prices ds acc =
     acc + sum_list (map (\<lambda>r. price (activity r)) (concat (map activity_recommendations ds)))"
  by (induction ds arbitrary: acc) (simp_all add: add_day_prices_sum)






text \<open>
  Claim C6. The cost-accuracy evaluator passes exactly when the prices of all scheduled
  activities of all days add up to the stated total cost; when they differ it fails with
  the message that carries the computed sum and then the stated total.
\<close>

theorem eval_total_cost_is_accurate_exact:
  "(eval_total_cost_is_accurate vi fo fb = Inr ()
      \<longleftrightarrow> sum_list (scheduled_prices fo) = total_cost fo)
   \<and> (sum_list (scheduled_prices fo) \<noteq> total_cost fo \<longrightarrow>
        eval_total_cost_is_accurate vi fo fb =
          Inl (AgentError (''Stated total cost does not match calculated total cost: ''
             @ show_int (sum_list (scheduled_prices fo)) @ '' != '' @ show_int (total_cost fo))))"
  by (simp add: eval_total_cost_is_accurate_def add_plan_prices_sum scheduled_prices_def Let_def)

lemma sample_plan_prices: "sum_list (scheduled_prices (sample_plan stated)) = 35"
  by (simp add: scheduled_prices_def sample_plan_def sample_activity_def)

theorem eval_total_cost_is_accurate_exact_witness:
  "eval_total_cost_is_accurate sample_vacation (sample_plan 35) None = Inr ()
   \<and> eval_total_cost_is_accurate sample_vacation (sample_plan 36) None =
       Inl (AgentError ''Stated total cost does not match calculated total cost: 35 != 36'')"
proof -
  have r35: "show_int 35 = ''35''" and r36: "show_int 36 = ''36''" by code_simp+
  have t: "total_cost (sample_plan 35) = 35" "total_cost (sample_plan 36) = 36"
    by (simp_all add: sample_plan_def)
  from eval_total_cost_is_accurate_exact[of sample_vacation "sample_plan 35" None]
       eval_total_cost_is_accurate_exact[of sample_vacation "sample_plan 36" None]
  show ?thesis by (simp add: sample_plan_prices t r35 r36)
qed

text \<open>
  Claim C7. The dates-match evaluator fails when the plan's start differs from the
  arrival or its end differs from the departure, fails when the start is after the end,
  and passes when both dates match and the start is not after the end.
\<close>

theorem eval_start_end_dates_match_cases:
  "(date_of_arrival vi \<noteq> start_date fo \<or> date_of_departure vi \<noteq> end_date fo
      \<longrightarrow> (\<exists>m. eval_start_end_dates_match vi fo fb = Inl (AgentError m)))
   \<and> (date_less (end_date fo) (start_date fo)
      \<longrightarrow> (\<exists>m. eval_start_end_dates_match vi fo fb = Inl (AgentError m)))
   \<and> (date_of_arrival vi = start_date fo \<and> date_of_departure vi = end_date fo
        \<and> date_le (start_date fo) (end_date fo)
      \<longrightarrow> eval_start_end_dates_match vi fo fb = Inr ())"
  by (simp add: eval_start_end_dates_match_def date_order_total[symmetric])

theorem eval_start_end_dates_match_cases_witness:
  "eval_start_end_dates_match sample_vacation (sample_plan 35) None = Inr ()
   \<and> (\<exists>m. eval_start_end_dates_match sample_vacation
         ((sample_plan 35)\<lparr>end_date := \<lparr>year = 2025, month = 6, day = 13\<rparr>\<rparr>) None = Inl (AgentError m))
   \<and> (\<exists>m. eval_start_end_dates_match
         (sample_vacation\<lparr>date_of_arrival := \<lparr>year = 2025, month = 6, day = 14\<rparr>\<rparr>)
         ((sample_plan 35)\<lparr>start_date := \<lparr>year = 2025, month = 6, day = 14\<rparr>\<rparr>) None = Inl (AgentError m))"
proof -
  have a: "date_of_arrival sample_vacation = start_date (sample_plan 35)
        \<and> date_of_departure sample_vacation = end_date (sample_plan 35)
        \<and> date_le (start_date (sample_plan 35)) (end_date (sample_plan 35))"
    by (simp add: sample_vacation_def sample_plan_def date_le_def date_less_def)
  have b: "date_of_departure sample_vacation
      \<noteq> end_date ((sample_plan 35)\<lparr>end_date := \<lparr>year = 2025, month = 6, day = 13\<rparr>\<rparr>)"
    by (simp add: sample_vacation_def)
  have c: "date_less (end_date ((sample_plan 35)\<lparr>start_date := \<lparr>year = 2025, month = 6, day = 14\<rparr>\<rparr>))
       (start_date ((sample_plan 35)\<lparr>start_date := \<lparr>year = 2025, month = 6, day = 14\<rparr>\<rparr>))"
    by (simp add: sample_plan_def date_less_def)
  from a b c
    eval_start_end_dates_match_cases[of sample_vacation "sample_plan 35" None]
    eval_start_end_dates_match_cases[of sample_vacation
       "(sample_plan 35)\<lparr>end_date := \<lparr>year = 2025, month = 6, day = 13\<rparr>\<rparr>" None]
    eval_start_end_dates_match_cases[of
       "sample_vacation\<lparr>date_of_arrival := \<lparr>year = 2025, month = 6, day = 14\<rparr>\<rparr>"
       "(sample_plan 35)\<lparr>start_date := \<lparr>year = 2025, month = 6, day = 14\<rparr>\<rparr>" None]
  show ?thesis by blast
qed

lemma dates_message_sample:
  "eval_start_end_dates_match
         (sample_vacation\<lparr>date_of_arrival := \<lparr>year = 2025, month = 6, day = 14\<rparr>\<rparr>)
         ((sample_plan 35)\<lparr>start_date := \<lparr>year = 2025, month = 6, day = 14\<rparr>\<rparr>) None
    = Inl (AgentError ''Start date is after end date: 2025-06-14 > 2025-06-12'')"
  by code_simp
lemma field_errors_empty:
  "VacationInfo_field_errors v = [] \<longleftrightarrow>
     travelers v \<noteq> [] \<and> date_less arrival_lower_bound (date_of_arrival v)
     \<and> date_less (date_of_departure v) departure_upper_bound \<and> 0 < budget v"
  by (cases "travelers v") (simp_all add: VacationInfo_field_errors_def)

text \<open>
  Claim C8, as amended. Construction succeeds exactly on the inputs with at least one
  traveler, a positive budget, an arrival after 2025-06-09 and a departure before
  2025-06-16, and fails on every input that violates one of these. The two dates are
  each held against a fixed bound; their order is not checked.
\<close>

theorem VacationInfo_model_validate_enforces:
  "(VacationInfo_model_validate v = Inr v' \<longleftrightarrow>
      v' = v \<and> travelers v \<noteq> [] \<and> 0 < budget v
      \<and> date_less arrival_lower_bound (date_of_arrival v)
      \<and> date_less (date_of_departure v) departure_upper_bound)
   \<and> ((travelers v = [] \<or> budget v \<le> 0
        \<or> \<not> date_less arrival_lower_bound (date_of_arrival v)
        \<or> \<not> date_less (date_of_departure v) departure_upper_bound)
       \<longrightarrow> (\<exists>errs. errs \<noteq> [] \<and> VacationInfo_model_validate v = Inl errs))"
proof -
  have "VacationInfo_model_validate v = (if VacationInfo_field_errors v = [] then Inr v
          else Inl (VacationInfo_field_errors v))"
    by (simp add: VacationInfo_model_validate_def split: list.splits)
  then show ?thesis
    using field_errors_empty[of v] by auto
qed

theorem VacationInfo_model_validate_enforces_witness:
  "VacationInfo_model_validate sample_vacation = Inr sample_vacation
   \<and> (\<exists>errs. errs \<noteq> [] \<and> VacationInfo_model_validate (sample_vacation\<lparr>budget := 0\<rparr>) = Inl errs)"
proof -
  have a: "travelers sample_vacation \<noteq> [] \<and> 0 < budget sample_vacation
      \<and> date_less arrival_lower_bound (date_of_arrival sample_vacation)
      \<and> date_less (date_of_departure sample_vacation) departure_upper_bound"
    by (simp add: sample_vacation_def date_less_def arrival_lower_bound_def departure_upper_bound_def)
  have b: "budget (sample_vacation\<lparr>budget := 0\<rparr>) \<le> 0" by simp
  from a b VacationInfo_model_validate_enforces[of sample_vacation sample_vacation]
    VacationInfo_model_validate_enforces[of "sample_vacation\<lparr>budget := 0\<rparr>" sample_vacation]
  show ?thesis by blast
qed

text \<open>
  Claim C8 as stated fails: a vacation arriving on 2025-06-14 and leaving on 2025-06-11
  is constructed.
\<close>

theorem VacationInfo_dates_unordered_counterexample:
  "VacationInfo_model_validate reversed_vacation = Inr reversed_vacation
   \<and> \<not> date_le (date_of_arrival reversed_vacation) (date_of_departure reversed_vacation)"
  by (simp add: VacationInfo_model_validate_def VacationInfo_field_errors_def reversed_vacation_def
        sample_vacation_def date_le_def date_less_def arrival_lower_bound_def departure_upper_bound_def)

lemma by_id_no_match:
  "\<forall>e \<in> set cal. \<exists>v. map_of e ''activity_id'' = Some v \<and> v \<noteq> JStr i \<Longrightarrow>
   call_activity_by_id_api_mocked cal i = Inr None"
  by (induction cal) (auto simp: subscript_def)

text \<open>
  Claim C9, as amended. The activities source returns the empty list for every non-empty
  city other than AgentsVille and for every non-empty date string that is malformed or
  outside 2025-06-10 .. 2025-06-15; the weather source returns the empty mapping for
  every other city, every malformed date and every date outside that range; the lookup
  by id returns \<^verbatim>\<open>None\<close> when every reference activity has another id. None of them
  raises there.
\<close>

theorem mocked_sources_empty_results:
  "(c \<noteq> [] \<and> c \<noteq> ''AgentsVille''
      \<longrightarrow> call_activities_api_mocked ok cal d (Some c) ids = Inr [])
   \<and> (dt \<noteq> [] \<and> (\<not> ok dt \<or> dt < ''2025-06-10'' \<or> dt > ''2025-06-15'')
      \<longrightarrow> call_activities_api_mocked ok cal (Some dt) co ids = Inr [])
   \<and> (c \<noteq> ''AgentsVille'' \<or> \<not> ok dt \<or> dt < ''2025-06-10'' \<or> dt > ''2025-06-15''
      \<longrightarrow> call_weather_api_mocked ok fc dt c = Inr [])
   \<and> ((\<forall>e \<in> set cal. \<exists>v. map_of e ''activity_id'' = Some v \<and> v \<noteq> JStr i)
      \<longrightarrow> call_activity_by_id_api_mocked cal i = Inr None)"
proof (intro conjI impI)
  assume "c \<noteq> [] \<and> c \<noteq> ''AgentsVille''"
  then show "call_activities_api_mocked ok cal d (Some c) ids = Inr []"
    by (simp add: call_activities_api_mocked_def truthy_def)
next
  assume "dt \<noteq> [] \<and> (\<not> ok dt \<or> dt < ''2025-06-10'' \<or> dt > ''2025-06-15'')"
  then show "call_activities_api_mocked ok cal (Some dt) co ids = Inr []"
    by (auto simp: call_activities_api_mocked_def truthy_def)
next
  assume "c \<noteq> ''AgentsVille'' \<or> \<not> ok dt \<or> dt < ''2025-06-10'' \<or> dt > ''2025-06-15''"
  then show "call_weather_api_mocked ok fc dt c = Inr []"
    by (auto simp: call_weather_api_mocked_def)
next
  assume "\<forall>e \<in> set cal. \<exists>v. map_of e ''activity_id'' = Some v \<and> v \<noteq> JStr i"
  then show "call_activity_by_id_api_mocked cal i = Inr None"
    by (rule by_id_no_match)
qed

theorem mocked_sources_empty_results_witness:
  "call_activities_api_mocked sample_strptime_ok sample_calendar (Some ''2025-06-10'') (Some ''Paris'') None = Inr []
   \<and> call_activities_api_mocked sample_strptime_ok sample_calendar (Some ''2025-06-20'') (Some ''AgentsVille'') None = Inr []
   \<and> call_activities_api_mocked sample_strptime_ok sample_calendar (Some ''June 10'') None None = Inr []
   \<and> call_weather_api_mocked sample_strptime_ok sample_forecast ''2025-06-09'' ''AgentsVille'' = Inr []
   \<and> call_weather_api_mocked sample_strptime_ok sample_forecast [] ''AgentsVille'' = Inr []
   \<and> call_weather_api_mocked sample_strptime_ok sample_forecast ''2025-06-10'' [] = Inr []
   \<and> call_activity_by_id_api_mocked sample_calendar ''event-2025-06-11-7'' = Inr None"
proof -
  have h1: "''Paris'' \<noteq> [] \<and> ''Paris'' \<noteq> ''AgentsVille''" by simp
  have h2: "''2025-06-20'' \<noteq> [] \<and> (\<not> sample_strptime_ok ''2025-06-20''
      \<or> ''2025-06-20'' < ''2025-06-10'' \<or> ''2025-06-20'' > ''2025-06-15'')" by simp
  have h3: "''June 10'' \<noteq> [] \<and> (\<not> sample_strptime_ok ''June 10''
      \<or> ''June 10'' < ''2025-06-10'' \<or> ''June 10'' > ''2025-06-15'')"
    by (simp add: sample_strptime_ok_def)
  have h4: "''AgentsVille'' \<noteq> ''AgentsVille'' \<or> \<not> sample_strptime_ok ''2025-06-09''
      \<or> ''2025-06-09'' < ''2025-06-10'' \<or> ''2025-06-09'' > ''2025-06-15''" by simp
  have h5: "''AgentsVille'' \<noteq> ''AgentsVille'' \<or> \<not> sample_strptime_ok []
      \<or> [] < ''2025-06-10'' \<or> [] > ''2025-06-15''" by simp
  have h6: "[] \<noteq> ''AgentsVille'' \<or> \<not> sample_strptime_ok ''2025-06-10''
      \<or> ''2025-06-10'' < ''2025-06-10'' \<or> ''2025-06-10'' > ''2025-06-15''" by simp
  have h7: "\<forall>e \<in> set sample_calendar. \<exists>v. map_of e ''activity_id'' = Some v
      \<and> v \<noteq> JStr ''event-2025-06-11-7''"
    by (simp add: sample_calendar_def)
  note t = mocked_sources_empty_results[where ok = sample_strptime_ok and cal = sample_calendar
      and fc = sample_forecast and i = "''event-2025-06-11-7''"]
  note a1 = t[where c = "''Paris''" and d = "Some ''2025-06-10''" and ids = None,
      THEN conjunct1, THEN mp, OF h1]
  note a2 = t[where dt = "''2025-06-20''" and co = "Some ''AgentsVille''" and ids = None,
      THEN conjunct2, THEN conjunct1, THEN mp, OF h2]
  note a3 = t[where dt = "''June 10''" and co = None and ids = None,
      THEN conjunct2, THEN conjunct1, THEN mp, OF h3]
  note a4 = t[where c = "''AgentsVille''" and dt = "''2025-06-09''",
      THEN conjunct2, THEN conjunct2, THEN conjunct1, THEN mp, OF h4]
  note a5 = t[where c = "''AgentsVille''" and dt = "[]",
      THEN conjunct2, THEN conjunct2, THEN conjunct1, THEN mp, OF h5]
  note a6 = t[where c = "[]" and dt = "''2025-06-10''",
      THEN conjunct2, THEN conjunct2, THEN conjunct1, THEN mp, OF h6]
  note a7 = t[THEN conjunct2, THEN conjunct2, THEN conjunct2, THEN mp, OF h7]
  show ?thesis
    by (intro conjI) (rule a1 a2 a3 a4 a5 a6 a7)+
qed

text \<open>
  Claim C9 as stated fails for the activities source: the empty string is a malformed
  date and an unsupported city, yet as a date or as a city it is read as "not given"
  and the calendar is returned.
\<close>

theorem activities_empty_date_counterexample:
  "\<not> sample_strptime_ok [] \<and> [] < ''2025-06-10''
   \<and> call_activities_api_mocked sample_strptime_ok sample_calendar (Some []) (Some ''AgentsVille'') None
       = Inr sample_calendar
   \<and> call_activities_api_mocked sample_strptime_ok sample_calendar (Some ''2025-06-10'') (Some []) None
       = Inr sample_calendar
   \<and> sample_calendar \<noteq> []"
  by (simp add: call_activities_api_mocked_def truthy_def sample_strptime_ok_def sample_calendar_def
        starts_on_def subscript_def)
lemma call_tool_cases:
  "snd tool_fn args w = (Inr r, w') \<Longrightarrow>
     call_tool tool_fn args w =
       (''OBSERVATION: Tool '' @ fst tool_fn @ '' called successfully with response: '' @ r, w')"
  "snd tool_fn args w = (Inl e, w') \<Longrightarrow>
     call_tool tool_fn args w =
       (''OBSERVATION: Error occurred while calling tool '' @ fst tool_fn @ '': ''
          @ error_message e, w')"
  by (simp_all add: call_tool_def)

lemma dispatch_no_tool_name:
  "map_of d ''tool_name'' = None \<Longrightarrow>
   get_observation_string ts (JObj d) w = (Inr ''OBSERVATION: No tool name specified.'', w)"
  by (simp add: get_observation_string_def py_in_def)

lemma dispatch_no_arguments:
  "map_of d ''tool_name'' = Some n \<Longrightarrow> map_of d ''arguments'' = None \<Longrightarrow>
   get_observation_string ts (JObj d) w = (Inr ''OBSERVATION: No arguments specified.'', w)"
  by (simp add: get_observation_string_def py_in_def)

lemma dispatch_arguments_not_dict:
  "map_of d ''tool_name'' = Some n \<Longrightarrow> map_of d ''arguments'' = Some a \<Longrightarrow>
   \<forall>args. a \<noteq> JObj args \<Longrightarrow>
   get_observation_string ts (JObj d) w =
     (Inr (''OBSERVATION: Arguments should be a dictionary, got '' @ show_type a @ '' instead.''), w)"
  by (cases a) (simp_all add: get_observation_string_def py_in_def py_getitem_def subscript_def)

lemma dispatch_tool_name_not_str:
  "map_of d ''tool_name'' = Some n \<Longrightarrow> map_of d ''arguments'' = Some (JObj args) \<Longrightarrow>
   \<forall>tname. n \<noteq> JStr tname \<Longrightarrow>
   get_observation_string ts (JObj d) w =
     (Inr (''OBSERVATION: Tool name should be a string, got '' @ show_type n @ '' instead.''), w)"
  by (cases n) (simp_all add: get_observation_string_def py_in_def py_getitem_def subscript_def)

lemma dispatch_unknown_tool:
  "map_of d ''tool_name'' = Some (JStr tname) \<Longrightarrow> map_of d ''arguments'' = Some (JObj args) \<Longrightarrow>
   find (\<lambda>tool. fst tool = tname) ts = None \<Longrightarrow>
   get_observation_string ts (JObj d) w =
     (Inr (''OBSERVATION: Unknown tool name '' @ quoted tname @ '' in action string.''), w)"
  by (simp add: get_observation_string_def py_in_def py_getitem_def subscript_def)

lemma dispatch_known_tool:
  "map_of d ''tool_name'' = Some (JStr tname) \<Longrightarrow> map_of d ''arguments'' = Some (JObj args) \<Longrightarrow>
   find (\<lambda>tool. fst tool = tname) ts = Some tool_fn \<Longrightarrow>
   get_observation_string ts (JObj d) w =
     (Inr (fst (call_tool tool_fn args w)), snd (call_tool tool_fn args w))"
  by (simp add: get_observation_string_def py_in_def py_getitem_def subscript_def split: prod.splits)

lemma dispatch_object_returns:
  "\<exists>obs w'. get_observation_string ts (JObj d) w = (Inr obs, w')"
proof (cases "map_of d ''tool_name''")
  case None
  then show ?thesis by (simp add: dispatch_no_tool_name)
next
  case n: (Some n)
  show ?thesis
  proof (cases "map_of d ''arguments''")
    case None
    with n show ?thesis by (simp add: dispatch_no_arguments)
  next
    case a: (Some a)
    show ?thesis
    proof (cases "\<exists>args. a = JObj args")
      case False
      with n a show ?thesis by (simp add: dispatch_arguments_not_dict)
    next
      case True
      then obtain args where args: "a = JObj args" ..
      show ?thesis
      proof (cases "\<exists>tname. n = JStr tname")
        case False
        with n a args show ?thesis by (simp add: dispatch_tool_name_not_str)
      next
        case True
        then obtain tname where tname: "n = JStr tname" ..
        show ?thesis
        proof (cases "find (\<lambda>tool. fst tool = tname) ts")
          case None
          with n a args tname show ?thesis by (simp add: dispatch_unknown_tool)
        next
          case (Some tool_fn)
          with n a args tname show ?thesis by (simp add: dispatch_known_tool)
        qed
      qed
    qed
  qed
qed

text \<open>
  Claim C2. On a tool-call mapping the dispatcher always returns an observation and never
  raises. It checks, in this order: no \<^verbatim>\<open>tool_name\<close> key, no \<^verbatim>\<open>arguments\<close> key, arguments
  not a mapping, tool name not a string, no registered tool of that name; each of the five
  ends the call with its own observation, different from the other four, and leaves the
  world as it was, so no tool body ran. Otherwise the first tool of that name is called once: an exception it raises is
  rendered as an error observation that names the tool and carries the exception's
  message, and a response is rendered as a success observation that names the tool and
  carries the response.
\<close>

theorem get_observation_string_total_and_ordered:
  "(\<exists>obs w'. get_observation_string ts (JObj d) w = (Inr obs, w'))
   \<and> (map_of d ''tool_name'' = None \<longrightarrow>
        get_observation_string ts (JObj d) w = (Inr ''OBSERVATION: No tool name specified.'', w))
   \<and> (map_of d ''tool_name'' \<noteq> None \<and> map_of d ''arguments'' = None \<longrightarrow>
        get_observation_string ts (JObj d) w = (Inr ''OBSERVATION: No arguments specified.'', w))
   \<and> (map_of d ''tool_name'' \<noteq> None \<and> map_of d ''arguments'' = Some a \<and> (\<forall>args. a \<noteq> JObj args) \<longrightarrow>
        get_observation_string ts (JObj d) w =
          (Inr (''OBSERVATION: Arguments should be a dictionary, got '' @ show_type a
                  @ '' instead.''), w))
   \<and> (map_of d ''tool_name'' = Some n \<and> map_of d ''arguments'' = Some (JObj args)
        \<and> (\<forall>tname. n \<noteq> JStr tname) \<longrightarrow>
        get_observation_string ts (JObj d) w =
          (Inr (''OBSERVATION: Tool name should be a string, got '' @ show_type n
                  @ '' instead.''), w))
   \<and> (map_of d ''tool_name'' = Some (JStr tname) \<and> map_of d ''arguments'' = Some (JObj args)
        \<and> tname \<notin> fst ` set ts \<longrightarrow>
        get_observation_string ts (JObj d) w =
          (Inr (''OBSERVATION: Unknown tool name '' @ quoted tname @ '' in action string.''), w))
   \<and> (map_of d ''tool_name'' = Some (JStr tname) \<and> map_of d ''arguments'' = Some (JObj args)
        \<and> find (\<lambda>tool. fst tool = tname) ts = Some tool_fn \<and> snd tool_fn args w = (Inl e, w1) \<longrightarrow>
        get_observation_string ts (JObj d) w =
          (Inr (''OBSERVATION: Error occurred while calling tool '' @ tname @ '': ''
                  @ error_message e), w1))
   \<and> (map_of d ''tool_name'' = Some (JStr tname) \<and> map_of d ''arguments'' = Some (JObj args)
        \<and> find (\<lambda>tool. fst tool = tname) ts = Some tool_fn \<and> snd tool_fn args w = (Inr r, w1) \<longrightarrow>
        get_observation_string ts (JObj d) w =
          (Inr (''OBSERVATION: Tool '' @ tname @ '' called successfully with response: '' @ r), w1))
   \<and> distinct [''OBSERVATION: No tool name specified.'', ''OBSERVATION: No arguments specified.'',
        ''OBSERVATION: Arguments should be a dictionary, got '' @ show_type a @ '' instead.'',
        ''OBSERVATION: Tool name should be a string, got '' @ show_type n @ '' instead.'',
        ''OBSERVATION: Unknown tool name '' @ quoted tname @ '' in action string.'']"
proof (intro conjI impI)
  show "\<exists>obs w'. get_observation_string ts (JObj d) w = (Inr obs, w')"
    by (rule dispatch_object_returns)
next
  assume "map_of d ''tool_name'' = None"
  then show "get_observation_string ts (JObj d) w = (Inr ''OBSERVATION: No tool name specified.'', w)"
    by (rule dispatch_no_tool_name)
next
  assume h: "map_of d ''tool_name'' \<noteq> None \<and> map_of d ''arguments'' = None"
  then obtain n' where n': "map_of d ''tool_name'' = Some n'" by auto
  from h have a': "map_of d ''arguments'' = None" by simp
  show "get_observation_string ts (JObj d) w = (Inr ''OBSERVATION: No arguments specified.'', w)"
    by (rule dispatch_no_arguments[OF n' a'])
next
  assume h: "map_of d ''tool_name'' \<noteq> None \<and> map_of d ''arguments'' = Some a \<and> (\<forall>args. a \<noteq> JObj args)"
  then obtain n' where n': "map_of d ''tool_name'' = Some n'" by auto
  from h have a': "map_of d ''arguments'' = Some a" and na: "\<forall>args. a \<noteq> JObj args" by simp_all
  show "get_observation_string ts (JObj d) w =
          (Inr (''OBSERVATION: Arguments should be a dictionary, got '' @ show_type a
                  @ '' instead.''), w)"
    by (rule dispatch_arguments_not_dict[OF n' a' na])
next
  assume h: "map_of d ''tool_name'' = Some n \<and> map_of d ''arguments'' = Some (JObj args)
        \<and> (\<forall>tname. n \<noteq> JStr tname)"
  then have n': "map_of d ''tool_name'' = Some n" and a': "map_of d ''arguments'' = Some (JObj args)"
    and ns: "\<forall>tname. n \<noteq> JStr tname" by simp_all
  show "get_observation_string ts (JObj d) w =
          (Inr (''OBSERVATION: Tool name should be a string, got '' @ show_type n
                  @ '' instead.''), w)"
    by (rule dispatch_tool_name_not_str[OF n' a' ns])
next
  assume h: "map_of d ''tool_name'' = Some (JStr tname) \<and> map_of d ''arguments'' = Some (JObj args)
        \<and> tname \<notin> fst ` set ts"
  then have nt: "tname \<notin> fst ` set ts" by simp
  have f: "find (\<lambda>tool. fst tool = tname) ts = None"
    unfolding find_None_iff using nt by force
  from h have n': "map_of d ''tool_name'' = Some (JStr tname)"
    and a': "map_of d ''arguments'' = Some (JObj args)" by simp_all
  show "get_observation_string ts (JObj d) w =
          (Inr (''OBSERVATION: Unknown tool name '' @ quoted tname @ '' in action string.''), w)"
    by (rule dispatch_unknown_tool[OF n' a' f])
next
  assume h: "map_of d ''tool_name'' = Some (JStr tname) \<and> map_of d ''arguments'' = Some (JObj args)
        \<and> find (\<lambda>tool. fst tool = tname) ts = Some tool_fn \<and> snd tool_fn args w = (Inl e, w1)"
  then have "fst tool_fn = tname" by (auto simp: find_Some_iff)
  with h show "get_observation_string ts (JObj d) w =
          (Inr (''OBSERVATION: Error occurred while calling tool '' @ tname @ '': ''
                  @ error_message e), w1)"
    by (simp add: dispatch_known_tool call_tool_cases)
next
  assume h: "map_of d ''tool_name'' = Some (JStr tname) \<and> map_of d ''arguments'' = Some (JObj args)
        \<and> find (\<lambda>tool. fst tool = tname) ts = Some tool_fn \<and> snd tool_fn args w = (Inr r, w1)"
  then have "fst tool_fn = tname" by (auto simp: find_Some_iff)
  with h show "get_observation_string ts (JObj d) w =
          (Inr (''OBSERVATION: Tool '' @ tname @ '' called successfully with response: '' @ r), w1)"
    by (simp add: dispatch_known_tool call_tool_cases)
next
  show "distinct [''OBSERVATION: No tool name specified.'', ''OBSERVATION: No arguments specified.'',
        ''OBSERVATION: Arguments should be a dictionary, got '' @ show_type a @ '' instead.'',
        ''OBSERVATION: Tool name should be a string, got '' @ show_type n @ '' instead.'',
        ''OBSERVATION: Unknown tool name '' @ quoted tname @ '' in action string.'']"
    by simp
qed
lemma add_message_user:
  "add_message ''user'' (Some text) self = Inr (observed self text)"
  by (simp add: add_message_def observed_def)

lemma add_message_assistant:
  "add_message ''assistant'' response (self\<lparr>world := w'\<rparr>) = Inr (answered self response w')"
  by (simp add: add_message_def answered_def)

lemma observe_continues: "observe resp text self = Continue resp (observed self text)"
  by (simp add: observe_def add_message_user)

lemma get_response_raised:
  "complete env (messages self) (world self) = (Inl e, w') \<Longrightarrow>
   get_response env self = (Inl e, self\<lparr>world := w'\<rparr>)"
  by (simp add: get_response_def)

lemma get_response_answered:
  "complete env (messages self) (world self) = (Inr response, w') \<Longrightarrow>
   get_response env self = (Inr response, answered self response w')"
  by (simp add: get_response_def add_message_assistant)

lemma split_at_first_found:
  "contains sep s \<Longrightarrow> \<exists>a b. split_at_first sep s = Some (a, b)"
  by (induction s) (auto split: option.splits)

lemma py_split_nonempty: "py_split sep s \<noteq> []"
  by (subst py_split.simps) (simp split: option.splits)

lemma second_piece_exists:
  assumes "contains sep s" and "sep \<noteq> []"
  shows "\<exists>piece. second_piece sep s = Inr piece"
proof -
  from split_at_first_found[OF assms(1)] obtain a b where ab: "split_at_first sep s = Some (a, b)"
    by blast
  from assms(2) ab have "py_split sep s = a # py_split sep b"
    by (subst py_split.simps) simp
  moreover obtain x xs where "py_split sep b = x # xs"
    using py_split_nonempty[of sep b] by (cases "py_split sep b") auto
  ultimately show ?thesis by (simp add: second_piece_def)
qed

lemma parse_and_act_no_action:
  "\<not> contains ''ACTION:'' resp \<Longrightarrow>
   parse_and_act env resp self1 = Continue resp (observed self1 ''No action found in response.'')"
  by (simp add: parse_and_act_def observe_continues)

lemma parse_and_act_invalid_json:
  "contains ''ACTION:'' resp \<Longrightarrow> second_piece ''ACTION:'' resp = Inr piece \<Longrightarrow>
   json_loads env (repair_json env (strip piece)) = None \<Longrightarrow>
   parse_and_act env resp self1 =
     Continue resp (observed self1 (''Invalid JSON in action string: '' @ repair_json env (strip piece)))"
  by (simp add: parse_and_act_def observe_continues)

lemma parse_and_act_parsed:
  "parsed_action env resp = Some obj \<Longrightarrow> parse_and_act env resp self1 = act env resp obj self1"
  by (auto simp: parsed_action_def parse_and_act_def split: if_splits sum.splits)

lemma parse_and_act_cases:
  "(\<not> contains ''ACTION:'' resp
      \<and> parse_and_act env resp self1 = Continue resp (observed self1 ''No action found in response.''))
   \<or> (\<exists>text. parse_and_act env resp self1
         = Continue resp (observed self1 (''Invalid JSON in action string: '' @ text)))
   \<or> (\<exists>obj. parsed_action env resp = Some obj \<and> parse_and_act env resp self1 = act env resp obj self1)"
proof (cases "contains ''ACTION:'' resp")
  case False
  then show ?thesis by (simp add: parse_and_act_no_action)
next
  case True
  then obtain piece where piece: "second_piece ''ACTION:'' resp = Inr piece"
    using second_piece_exists[of "''ACTION:''" resp] by auto
  show ?thesis
  proof (cases "json_loads env (repair_json env (strip piece))")
    case None
    from parse_and_act_invalid_json[OF True piece None, of self1] show ?thesis by blast
  next
    case (Some obj)
    with True piece have "parsed_action env resp = Some obj" by (simp add: parsed_action_def)
    then show ?thesis by (simp add: parse_and_act_parsed)
  qed
qed

lemma react_step_raised:
  "complete env (messages self) (world self) = (Inl e, w') \<Longrightarrow>
   react_step env self = Raise e (self\<lparr>world := w'\<rparr>)"
  by (simp add: react_step_def get_response_raised)

lemma react_step_answered:
  "complete env (messages self) (world self) = (Inr response, w') \<Longrightarrow>
   react_step env self = parse_and_act env (resp_of response) (answered self response w')"
  by (simp add: react_step_def get_response_answered)

lemma validate_final_answer_object:
  "map_of d ''arguments'' = Some (JObj args) \<Longrightarrow>
   validate_final_answer env (JObj d) = model_validate env (final_payload args)"
  by (simp add: validate_final_answer_def py_getitem_def subscript_def py_get_def final_payload_def)

lemma validate_final_answer_success:
  assumes "validate_final_answer env (JObj d) = Inr plan"
  shows "\<exists>args. map_of d ''arguments'' = Some (JObj args)
           \<and> model_validate env (final_payload args) = Inr plan"
proof -
  from assms obtain a where a: "map_of d ''arguments'' = Some a"
    by (cases "map_of d ''arguments''")
       (auto simp: validate_final_answer_def py_getitem_def subscript_def)
  from assms a obtain args where "a = JObj args"
    by (cases a)
       (auto simp: validate_final_answer_def py_getitem_def subscript_def py_get_def)
  with a assms show ?thesis by (simp add: validate_final_answer_object)
qed

lemma act_non_object:
  "\<forall>d. obj \<noteq> JObj d \<Longrightarrow>
   act env resp obj self1 =
     Raise (AttributeError (quoted (py_type_name obj) @ '' object has no attribute '' @ quoted ''get''))
       self1"
  by (cases obj) (simp_all add: act_def py_get_def)

lemma act_final_answer:
  "map_of d ''tool_name'' = Some (JStr ''final_answer_tool'') \<Longrightarrow>
   act env resp (JObj d) self1 =
     (case validate_final_answer env (JObj d) of
        Inr plan \<Rightarrow> Return plan self1
      | Inl e \<Rightarrow> Continue resp (observed self1 (''Error validating final answer: '' @ error_message e)))"
  by (simp add: act_def py_get_def observe_continues split: sum.splits)

lemma act_other_tool:
  assumes "map_of d ''tool_name'' \<noteq> Some (JStr ''final_answer_tool'')"
  shows "\<exists>obs w'. get_observation_string (tools env) (JObj d) (world self1) = (Inr obs, w')
           \<and> act env resp (JObj d) self1 = Continue resp (observed (self1\<lparr>world := w'\<rparr>) obs)"
proof -
  obtain obs w' where r: "get_observation_string (tools env) (JObj d) (world self1) = (Inr obs, w')"
    using dispatch_object_returns[of "tools env" d "world self1"] by auto
  from assms have "(case map_of d ''tool_name'' of None \<Rightarrow> JNull | Some v \<Rightarrow> v)
      \<noteq> JStr ''final_answer_tool''"
    by (cases "map_of d ''tool_name''") auto
  with r have "act env resp (JObj d) self1 = Continue resp (observed (self1\<lparr>world := w'\<rparr>) obs)"
    by (simp add: act_def py_get_def observe_continues)
  with r show ?thesis by blast
qed

lemma act_Return:
  assumes "act env resp obj self1 = Return plan self'"
  shows "self' = self1 \<and> (\<exists>d args. obj = JObj d
           \<and> map_of d ''tool_name'' = Some (JStr ''final_answer_tool'')
           \<and> map_of d ''arguments'' = Some (JObj args)
           \<and> model_validate env (final_payload args) = Inr plan)"
proof (cases "\<exists>d. obj = JObj d")
  case False
  then show ?thesis using assms act_non_object[of obj env resp self1] by simp
next
  case True
  then obtain d where d: "obj = JObj d" ..
  show ?thesis
  proof (cases "map_of d ''tool_name'' = Some (JStr ''final_answer_tool'')")
    case False
    from act_other_tool[OF False, of env self1 resp] assms d show ?thesis by auto
  next
    case True
    with assms d have v: "validate_final_answer env (JObj d) = Inr plan" and s: "self' = self1"
      by (auto simp: act_final_answer split: sum.splits)
    from validate_final_answer_success[OF v] True d s show ?thesis by blast
  qed
qed
lemma run_react_cycle_seeded:
  "run_react_cycle env self original max_steps =
     react_loop env max_steps (nat max_steps) None (seeded env self original)"
  by (simp add: run_react_cycle_def seeded_def add_message_user)

lemma react_step_recovers:
  assumes "complete env (messages self) (world self) = (Inr response, w')"
      and "parsed_action env (resp_of response) = None
           \<or> (\<exists>d. parsed_action env (resp_of response) = Some (JObj d))"
  shows "(\<exists>text w''. react_step env self =
            Continue (resp_of response) (observed ((answered self response w')\<lparr>world := w''\<rparr>) text))
         \<or> (\<exists>plan. react_step env self = Return plan (answered self response w'))"
proof -
  let ?a = "answered self response w'"
  have same: "?a\<lparr>world := world ?a\<rparr> = ?a" by simp
  from parse_and_act_cases[of "resp_of response" env ?a]
  consider
      (none) "parse_and_act env (resp_of response) ?a
                = Continue (resp_of response) (observed ?a ''No action found in response.'')"
    | (json) t where "parse_and_act env (resp_of response) ?a
                = Continue (resp_of response) (observed ?a (''Invalid JSON in action string: '' @ t))"
    | (obj) obj where "parsed_action env (resp_of response) = Some obj"
               "parse_and_act env (resp_of response) ?a = act env (resp_of response) obj ?a"
    by blast
  then show ?thesis
  proof cases
    case none
    with assms(1) same show ?thesis by (metis react_step_answered)
  next
    case json
    with assms(1) same show ?thesis by (metis react_step_answered)
  next
    case obj
    with assms(2) obtain d where d: "obj = JObj d" by auto
    show ?thesis
    proof (cases "map_of d ''tool_name'' = Some (JStr ''final_answer_tool'')")
      case True
      show ?thesis
      proof (cases "validate_final_answer env (JObj d)")
        case (Inl e)
        with True obj(2) d have "react_step env self = Continue (resp_of response)
            (observed ?a (''Error validating final answer: '' @ error_message e))"
          by (simp add: react_step_answered[OF assms(1)] act_final_answer)
        with same show ?thesis by metis
      next
        case (Inr plan)
        with True obj(2) d have "react_step env self = Return plan ?a"
          by (simp add: react_step_answered[OF assms(1)] act_final_answer)
        then show ?thesis by blast
      qed
    next
      case False
      from act_other_tool[OF False, of env ?a "resp_of response"] obj(2) d
      show ?thesis by (auto simp: react_step_answered[OF assms(1)])
    qed
  qed
qed

text \<open>
  Claim C1 fails on the code. A response whose action text parses to a JSON value that is
  not an object (a list, a string, a number) has neither field of a tool call, and
  \<^verbatim>\<open>tool_call_obj.get\<close> raises \<^verbatim>\<open>AttributeError\<close> outside every \<^verbatim>\<open>try\<close>: the step ends
  with the exception after the assistant message, no observation is added, and the loop
  ends with it whatever budget remains. (Lemma \<open>react_step_recovers\<close> is the part of
  the claim that holds: without a marker, with unparseable action text or with an object
  of any shape, the step continues or returns.)
\<close>

theorem non_object_action_escapes_loop:
  assumes "complete env (messages self) (world self) = (Inr response, w')"
      and "parsed_action env (resp_of response) = Some obj"
      and "\<forall>d. obj \<noteq> JObj d"
  shows "react_step env self =
           Raise (AttributeError (quoted (py_type_name obj) @ '' object has no attribute ''
                    @ quoted ''get''))
             (answered self response w')
         \<and> react_loop env max_steps (Suc remaining) resp self =
           (Inl (AttributeError (quoted (py_type_name obj) @ '' object has no attribute ''
                   @ quoted ''get'')),
            answered self response w')"
proof -
  have "react_step env self = act env (resp_of response) obj (answered self response w')"
    by (simp add: react_step_answered[OF assms(1)] parse_and_act_parsed[OF assms(2)])
  with act_non_object[OF assms(3)] have "react_step env self =
      Raise (AttributeError (quoted (py_type_name obj) @ '' object has no attribute ''
               @ quoted ''get'')) (answered self response w')"
    by simp
  then show ?thesis by simp
qed

lemma react_step_Return:
  assumes "react_step env self = Return plan self'"
  shows "\<exists>response w' d args.
           complete env (messages self) (world self) = (Inr response, w')
           \<and> parsed_action env (resp_of response) = Some (JObj d)
           \<and> map_of d ''tool_name'' = Some (JStr ''final_answer_tool'')
           \<and> map_of d ''arguments'' = Some (JObj args)
           \<and> model_validate env (final_payload args) = Inr plan
           \<and> self' = answered self response w'"
proof -
  obtain r w' where c: "complete env (messages self) (world self) = (r, w')"
    by (cases "complete env (messages self) (world self)")
  show ?thesis
  proof (cases r)
    case (Inl e)
    with c assms show ?thesis by (simp add: react_step_raised)
  next
    case (Inr response)
    let ?a = "answered self response w'"
    from c Inr have c': "complete env (messages self) (world self) = (Inr response, w')" by simp
    with assms have p: "parse_and_act env (resp_of response) ?a = Return plan self'"
      by (simp add: react_step_answered)
    with parse_and_act_cases[of "resp_of response" env ?a]
    obtain obj where obj: "parsed_action env (resp_of response) = Some obj"
        and a: "act env (resp_of response) obj ?a = Return plan self'"
      by auto
    from act_Return[OF a] obj c' show ?thesis by blast
  qed
qed


lemma react_step_Continue:
  assumes "react_step env self = Continue r self'"
  shows "\<exists>response w' w'' obs.
           complete env (messages self) (world self) = (Inr response, w')
           \<and> r = resp_of response
           \<and> self' = observed ((answered self response w')\<lparr>world := w''\<rparr>) obs"
proof -
  obtain x w' where c: "complete env (messages self) (world self) = (x, w')"
    by (cases "complete env (messages self) (world self)")
  show ?thesis
  proof (cases x)
    case (Inl e)
    with c assms show ?thesis by (simp add: react_step_raised)
  next
    case (Inr response)
    let ?a = "answered self response w'"
    have same: "?a\<lparr>world := world ?a\<rparr> = ?a" by simp
    from c Inr have c': "complete env (messages self) (world self) = (Inr response, w')" by simp
    with assms have p: "parse_and_act env (resp_of response) ?a = Continue r self'"
      by (simp add: react_step_answered)
    from parse_and_act_cases[of "resp_of response" env ?a]
    consider
        (none) "parse_and_act env (resp_of response) ?a
                  = Continue (resp_of response) (observed ?a ''No action found in response.'')"
      | (json) t where "parse_and_act env (resp_of response) ?a
                  = Continue (resp_of response) (observed ?a (''Invalid JSON in action string: '' @ t))"
      | (obj) obj where "parsed_action env (resp_of response) = Some obj"
                 "parse_and_act env (resp_of response) ?a = act env (resp_of response) obj ?a"
      by blast
    then show ?thesis
    proof cases
      case none
      with p have "r = resp_of response"
        and "self' = observed ?a ''No action found in response.''" by simp_all
      with c' same show ?thesis by metis
    next
      case json
      with p have "r = resp_of response"
        and "self' = observed ?a (''Invalid JSON in action string: '' @ t)" by simp_all
      with c' same show ?thesis by metis
    next
      case obj
      with p have a: "act env (resp_of response) obj ?a = Continue r self'" by simp
      show ?thesis
      proof (cases "\<exists>d. obj = JObj d")
        case False
        with a act_non_object[of obj env "resp_of response" ?a] show ?thesis by simp
      next
        case True
        then obtain d where d: "obj = JObj d" ..
        show ?thesis
        proof (cases "map_of d ''tool_name'' = Some (JStr ''final_answer_tool'')")
          case True
          with a d obtain e where "r = resp_of response"
            and "self' = observed ?a (''Error validating final answer: '' @ error_message e)"
            by (auto simp: act_final_answer split: sum.splits)
          with c' same show ?thesis by metis
        next
          case False
          from act_other_tool[OF False, of env ?a "resp_of response"] a d
          obtain obs w'' where "r = resp_of response"
            and "self' = observed (?a\<lparr>world := w''\<rparr>) obs"
            by auto
          with c' show ?thesis by blast
        qed
      qed
    qed
  qed
qed





lemma react_step_messages:
  "(complete env (messages self) (world self) = (Inl e, w')
      \<longrightarrow> messages (state_of (react_step env self)) = messages self)
   \<and> (complete env (messages self) (world self) = (Inr response, w')
      \<longrightarrow> messages (state_of (react_step env self))
            = messages self @ [\<lparr>role = ''assistant'', content = response\<rparr>]
          \<or> (\<exists>obs. messages (state_of (react_step env self))
            = messages self @ [\<lparr>role = ''assistant'', content = response\<rparr>,
                               \<lparr>role = ''user'', content = Some obs\<rparr>]))"
proof (intro conjI impI)
  assume "complete env (messages self) (world self) = (Inl e, w')"
  then show "messages (state_of (react_step env self)) = messages self"
    by (simp add: react_step_raised)
next
  assume c: "complete env (messages self) (world self) = (Inr response, w')"
  let ?a = "answered self response w'"
  have ma: "messages ?a = messages self @ [\<lparr>role = ''assistant'', content = response\<rparr>]"
    by (simp add: answered_def)
  show "messages (state_of (react_step env self))
            = messages self @ [\<lparr>role = ''assistant'', content = response\<rparr>]
          \<or> (\<exists>obs. messages (state_of (react_step env self))
            = messages self @ [\<lparr>role = ''assistant'', content = response\<rparr>,
                               \<lparr>role = ''user'', content = Some obs\<rparr>])"
  proof (cases "react_step env self")
    case (Continue r s')
    from react_step_Continue[OF Continue] c obtain w'' obs
      where "s' = observed (?a\<lparr>world := w''\<rparr>) obs" by auto
    then have "messages s' = messages self @ [\<lparr>role = ''assistant'', content = response\<rparr>,
                               \<lparr>role = ''user'', content = Some obs\<rparr>]"
      by (simp add: observed_def answered_def)
    with Continue show ?thesis by auto
  next
    case (Return plan s')
    from react_step_Return[OF Return] c have "s' = ?a" by auto
    with Return ma show ?thesis by simp
  next
    case (Raise err s')
    have p: "react_step env self = parse_and_act env (resp_of response) ?a"
      by (rule react_step_answered[OF c])
    from parse_and_act_cases[of "resp_of response" env ?a] p Raise
    obtain obj where "parsed_action env (resp_of response) = Some obj"
        and a: "act env (resp_of response) obj ?a = Raise err s'"
      by auto
    have "s' = ?a"
    proof (cases "\<exists>d. obj = JObj d")
      case False
      with a act_non_object[of obj env "resp_of response" ?a] show ?thesis by simp
    next
      case True
      then obtain d where d: "obj = JObj d" ..
      show ?thesis
      proof (cases "map_of d ''tool_name'' = Some (JStr ''final_answer_tool'')")
        case True
        with a d show ?thesis by (auto simp: act_final_answer split: sum.splits)
      next
        case False
        from act_other_tool[OF False, of env ?a "resp_of response"] a d show ?thesis by auto
      qed
    qed
    with Raise ma show ?thesis by simp
  qed
qed

lemma react_step_appends:
  "\<exists>new. messages (state_of (react_step env self)) = messages self @ new
         \<and> (\<forall>m \<in> set new. valid_role m)"
proof -
  obtain x w' where c: "complete env (messages self) (world self) = (x, w')"
    by (cases "complete env (messages self) (world self)")
  show ?thesis
  proof (cases x)
    case (Inl e)
    with c react_step_messages[of env self e w'] show ?thesis by simp
  next
    case (Inr response)
    with c react_step_messages[of env self _ w' response]
    consider "messages (state_of (react_step env self))
                = messages self @ [\<lparr>role = ''assistant'', content = response\<rparr>]"
      | obs where "messages (state_of (react_step env self))
                = messages self @ [\<lparr>role = ''assistant'', content = response\<rparr>,
                                   \<lparr>role = ''user'', content = Some obs\<rparr>]"
      by auto
    then show ?thesis
    proof cases
      case 1
      have "\<forall>m \<in> set [\<lparr>role = ''assistant'', content = response\<rparr>]. valid_role m"
        by (simp add: valid_role_def)
      with 1 show ?thesis by blast
    next
      case 2
      have "\<forall>m \<in> set [\<lparr>role = ''assistant'', content = response\<rparr>,
                        \<lparr>role = ''user'', content = Some obs\<rparr>]. valid_role m"
        by (simp add: valid_role_def)
      with 2 show ?thesis by blast
    qed
  qed
qed

lemma react_loop_appends:
  "\<exists>new. messages (snd (react_loop env max_steps k resp self)) = messages self @ new
         \<and> (\<forall>m \<in> set new. valid_role m)"
proof (induction k arbitrary: resp self)
  case 0
  show ?case by simp
next
  case (Suc k)
  from react_step_appends[of env self] obtain new1
    where n1: "messages (state_of (react_step env self)) = messages self @ new1"
      and v1: "\<forall>m \<in> set new1. valid_role m" by blast
  show ?case
  proof (cases "react_step env self")
    case (Continue r s')
    from Suc.IH[of "Some r" s'] obtain new2
      where n2: "messages (snd (react_loop env max_steps k (Some r) s')) = messages s' @ new2"
        and v2: "\<forall>m \<in> set new2. valid_role m" by blast
    from Continue n1 n2 have "messages (snd (react_loop env max_steps (Suc k) resp self))
        = messages self @ (new1 @ new2)" by simp
    moreover from v1 v2 have "\<forall>m \<in> set (new1 @ new2). valid_role m" by auto
    ultimately show ?thesis by blast
  next
    case (Return plan s')
    with n1 v1 show ?thesis by auto
  next
    case (Raise err s')
    with n1 v1 show ?thesis by auto
  qed
qed

text \<open>
  Claim C10. A step of the loop only appends to the conversation: nothing when the
  completion call raises; otherwise the assistant message with the response and then at
  most one user message. A whole run leaves the messages it started from in place and
  appends messages whose roles are among system, user and assistant.
\<close>

theorem conversation_append_only:
  "(complete env (messages self) (world self) = (Inl e, w')
      \<longrightarrow> messages (state_of (react_step env self)) = messages self)
   \<and> (complete env (messages self) (world self) = (Inr response, w')
      \<longrightarrow> messages (state_of (react_step env self))
            = messages self @ [\<lparr>role = ''assistant'', content = response\<rparr>]
          \<or> (\<exists>obs. messages (state_of (react_step env self))
            = messages self @ [\<lparr>role = ''assistant'', content = response\<rparr>,
                               \<lparr>role = ''user'', content = Some obs\<rparr>]))
   \<and> (\<exists>new. messages (snd (run_react_cycle env self original max_steps)) = messages self @ new
         \<and> (\<forall>m \<in> set new. valid_role m))"
proof -
  from react_loop_appends[of env max_steps "nat max_steps" None "seeded env self original"]
  obtain new where n: "messages (snd (run_react_cycle env self original max_steps))
        = messages (seeded env self original) @ new"
      and v: "\<forall>m \<in> set new. valid_role m"
    by (auto simp: run_react_cycle_seeded)
  let ?first = "\<lparr>role = ''user'', content = Some (''Here is the itinerary for revision:''
      @ [CHR 0x0A] @ model_dump_json env original)\<rparr>"
  have "messages (seeded env self original) = messages self @ [?first]"
    by (simp add: seeded_def observed_def)
  with n have "messages (snd (run_react_cycle env self original max_steps))
      = messages self @ (?first # new)" by simp
  moreover from v have "\<forall>m \<in> set (?first # new). valid_role m" by (simp add: valid_role_def)
  ultimately have "\<exists>new. messages (snd (run_react_cycle env self original max_steps))
      = messages self @ new \<and> (\<forall>m \<in> set new. valid_role m)" by blast
  with react_step_messages[of env self e w' response] show ?thesis by blast
qed
lemma nat_of_budget: "nat (10::int) = Suc 9" "nat (5::int) = Suc (Suc 3)"
  by simp_all

lemma sample_complete:
  "completions w < length replies \<Longrightarrow>
   complete (sample_env replies) msgs w
     = (Inr (replies ! completions w), w\<lparr>completions := Suc (completions w)\<rparr>)"
  "\<not> completions w < length replies \<Longrightarrow>
   complete (sample_env replies) msgs w = (Inl (OtherError ''connection lost''), w)"
  by (simp_all add: sample_env_def scripted_def)

lemma sample_parses:
  "parsed_action (sample_env replies) list_reply = Some (JArr [JInt 1, JInt 2])"
  "parsed_action (sample_env replies) plain_reply = None"
  "parsed_action (sample_env replies) wrong_final_reply
     = Some (JObj (tool_call ''final_answer_tool'' [(''final_output'', JObj [(''cost'', JInt 35)])]))"
  "parsed_action (sample_env replies) good_final_reply
     = Some (JObj (tool_call ''final_answer_tool''
         [(''final_output'', JObj [(''total_cost'', JInt 35)])]))"
  "parsed_action (sample_env replies) bare_final_reply
     = Some (JObj [(''tool_name'', JStr ''final_answer_tool'')])"
  by code_simp+


theorem non_object_action_escapes_loop_witness:
  "run_react_cycle (sample_env [Some list_reply]) sample_agent (sample_plan 35) 10 =
     (Inl (AttributeError (quoted ''list'' @ '' object has no attribute '' @ quoted ''get'')),
      answered (seeded (sample_env [Some list_reply]) sample_agent (sample_plan 35))
        (Some list_reply) \<lparr>completions = 1, tool_runs = 0\<rparr>)"
proof -
  let ?env = "sample_env [Some list_reply]"
  let ?s0 = "seeded ?env sample_agent (sample_plan 35)"
  have c: "complete ?env (messages ?s0) (world ?s0)
             = (Inr (Some list_reply), \<lparr>completions = 1, tool_runs = 0\<rparr>)"
    by (simp add: sample_complete seeded_def observed_def sample_agent_def)
  have p: "parsed_action ?env (resp_of (Some list_reply)) = Some (JArr [JInt 1, JInt 2])"
    by (simp add: resp_of_def sample_parses)
  have n: "\<forall>d. JArr [JInt 1, JInt 2] \<noteq> JObj d" by simp
  from non_object_action_escapes_loop[OF c p n, of 10 9 None]
  show ?thesis by (simp add: run_react_cycle_seeded nat_of_budget py_type_name_def)
qed

theorem get_observation_string_total_and_ordered_witness:
  "get_observation_string sample_tools (JObj []) fresh_world
     = (Inr ''OBSERVATION: No tool name specified.'', fresh_world)
   \<and> get_observation_string sample_tools (JObj [(''tool_name'', JStr ''calculator_tool'')]) fresh_world
     = (Inr ''OBSERVATION: No arguments specified.'', fresh_world)
   \<and> get_observation_string sample_tools
       (JObj [(''tool_name'', JStr ''calculator_tool''), (''arguments'', JArr [])]) fresh_world
     = (Inr (''OBSERVATION: Arguments should be a dictionary, got '' @ show_type (JArr [])
               @ '' instead.''), fresh_world)
   \<and> get_observation_string sample_tools
       (JObj [(''tool_name'', JInt 7), (''arguments'', JObj [])]) fresh_world
     = (Inr (''OBSERVATION: Tool name should be a string, got '' @ show_type (JInt 7)
               @ '' instead.''), fresh_world)
   \<and> get_observation_string sample_tools (JObj (tool_call ''nonexistent_tool'' [])) fresh_world
     = (Inr (''OBSERVATION: Unknown tool name '' @ quoted ''nonexistent_tool''
               @ '' in action string.''), fresh_world)
   \<and> get_observation_string sample_tools
       (JObj (tool_call ''calculator_tool'' [(''input_expression'', JStr ''1/0'')])) fresh_world
     = (Inr ''OBSERVATION: Error occurred while calling tool calculator_tool: division by zero'',
        \<lparr>completions = 0, tool_runs = 1\<rparr>)
   \<and> get_observation_string sample_tools
       (JObj (tool_call ''calculator_tool'' [(''input_expression'', JStr ''1+1'')])) fresh_world
     = (Inr ''OBSERVATION: Tool calculator_tool called successfully with response: 2.0'',
        \<lparr>completions = 0, tool_runs = 1\<rparr>)"
proof -
  note t = get_observation_string_total_and_ordered[where ts = sample_tools and w = fresh_world]
  have h1: "map_of ([] :: dict) ''tool_name'' = None" by simp
  note a1 = t[where d = "[]", THEN conjunct2, THEN conjunct1, THEN mp, OF h1]
  let ?d2 = "[(''tool_name'', JStr ''calculator_tool'')]"
  have h2: "map_of ?d2 ''tool_name'' \<noteq> None \<and> map_of ?d2 ''arguments'' = None" by simp
  note a2 = t[where d = ?d2, THEN conjunct2, THEN conjunct2, THEN conjunct1, THEN mp, OF h2]
  let ?d3 = "[(''tool_name'', JStr ''calculator_tool''), (''arguments'', JArr [])]"
  have h3: "map_of ?d3 ''tool_name'' \<noteq> None \<and> map_of ?d3 ''arguments'' = Some (JArr [])
      \<and> (\<forall>args. JArr [] \<noteq> JObj args)" by simp
  note a3 = t[where d = ?d3 and a = "JArr []", THEN conjunct2, THEN conjunct2, THEN conjunct2,
      THEN conjunct1, THEN mp, OF h3]
  let ?d4 = "[(''tool_name'', JInt 7), (''arguments'', JObj [])]"
  have h4: "map_of ?d4 ''tool_name'' = Some (JInt 7) \<and> map_of ?d4 ''arguments'' = Some (JObj [])
      \<and> (\<forall>tname. JInt 7 \<noteq> JStr tname)" by simp
  note a4 = t[where d = ?d4 and n = "JInt 7" and args = "[]", THEN conjunct2, THEN conjunct2,
      THEN conjunct2, THEN conjunct2, THEN conjunct1, THEN mp, OF h4]
  let ?d5 = "tool_call ''nonexistent_tool'' []"
  have h5: "map_of ?d5 ''tool_name'' = Some (JStr ''nonexistent_tool'')
      \<and> map_of ?d5 ''arguments'' = Some (JObj [])
      \<and> ''nonexistent_tool'' \<notin> fst ` set sample_tools"
    by (simp add: tool_call_def sample_tools_def)
  note a5 = t[where d = ?d5 and tname = "''nonexistent_tool''" and args = "[]", THEN conjunct2,
      THEN conjunct2, THEN conjunct2, THEN conjunct2, THEN conjunct2, THEN conjunct1, THEN mp, OF h5]
  let ?bad = "[(''input_expression'', JStr ''1/0'')]"
  let ?d6 = "tool_call ''calculator_tool'' ?bad"
  have h6: "map_of ?d6 ''tool_name'' = Some (JStr ''calculator_tool'')
      \<and> map_of ?d6 ''arguments'' = Some (JObj ?bad)
      \<and> find (\<lambda>tool. fst tool = ''calculator_tool'') sample_tools
          = Some (''calculator_tool'', sample_calculator)
      \<and> snd (''calculator_tool'', sample_calculator) ?bad fresh_world
          = (Inl (OtherError ''division by zero''), \<lparr>completions = 0, tool_runs = 1\<rparr>)"
    by (simp add: tool_call_def sample_tools_def sample_calculator_def fresh_world_def)
  note a6 = t[where d = ?d6 and tname = "''calculator_tool''" and args = ?bad
      and tool_fn = "(''calculator_tool'', sample_calculator)"
      and e = "OtherError ''division by zero''" and ?w1.0 = "\<lparr>completions = 0, tool_runs = 1\<rparr>",
      THEN conjunct2, THEN conjunct2, THEN conjunct2, THEN conjunct2, THEN conjunct2, THEN conjunct2,
      THEN conjunct1, THEN mp, OF h6]
  let ?good = "[(''input_expression'', JStr ''1+1'')]"
  let ?d7 = "tool_call ''calculator_tool'' ?good"
  have h7: "map_of ?d7 ''tool_name'' = Some (JStr ''calculator_tool'')
      \<and> map_of ?d7 ''arguments'' = Some (JObj ?good)
      \<and> find (\<lambda>tool. fst tool = ''calculator_tool'') sample_tools
          = Some (''calculator_tool'', sample_calculator)
      \<and> snd (''calculator_tool'', sample_calculator) ?good fresh_world
          = (Inr ''2.0'', \<lparr>completions = 0, tool_runs = 1\<rparr>)"
    by (simp add: tool_call_def sample_tools_def sample_calculator_def fresh_world_def)
  note a7 = t[where d = ?d7 and tname = "''calculator_tool''" and args = ?good
      and tool_fn = "(''calculator_tool'', sample_calculator)"
      and r = "''2.0''" and ?w1.0 = "\<lparr>completions = 0, tool_runs = 1\<rparr>",
      THEN conjunct2, THEN conjunct2, THEN conjunct2, THEN conjunct2, THEN conjunct2, THEN conjunct2,
      THEN conjunct2, THEN conjunct1, THEN mp, OF h7]
  from a6 have a6': "get_observation_string sample_tools (JObj ?d6) fresh_world
     = (Inr ''OBSERVATION: Error occurred while calling tool calculator_tool: division by zero'',
        \<lparr>completions = 0, tool_runs = 1\<rparr>)" by simp
  from a7 have a7': "get_observation_string sample_tools (JObj ?d7) fresh_world
     = (Inr ''OBSERVATION: Tool calculator_tool called successfully with response: 2.0'',
        \<lparr>completions = 0, tool_runs = 1\<rparr>)" by simp
  show ?thesis
    by (intro conjI) (rule a1 a2 a3 a4 a5 a6' a7')+
qed


theorem conversation_append_only_witness:
  "messages (state_of (react_step (sample_env []) sample_agent)) = messages sample_agent
   \<and> (messages (state_of (react_step (sample_env [Some plain_reply]) sample_agent))
        = messages sample_agent @ [\<lparr>role = ''assistant'', content = Some plain_reply\<rparr>]
      \<or> (\<exists>obs. messages (state_of (react_step (sample_env [Some plain_reply]) sample_agent))
        = messages sample_agent @ [\<lparr>role = ''assistant'', content = Some plain_reply\<rparr>,
                                   \<lparr>role = ''user'', content = Some obs\<rparr>]))
   \<and> (\<exists>new. messages (snd (run_react_cycle (sample_env [Some plain_reply]) sample_agent
                              (sample_plan 35) 1)) = messages sample_agent @ new
         \<and> (\<forall>m \<in> set new. valid_role m))"
proof -
  have h1: "complete (sample_env []) (messages sample_agent) (world sample_agent)
      = (Inl (OtherError ''connection lost''), world sample_agent)"
    by (simp add: sample_complete)
  have h2: "complete (sample_env [Some plain_reply]) (messages sample_agent) (world sample_agent)
      = (Inr (Some plain_reply), \<lparr>completions = 1, tool_runs = 0\<rparr>)"
    by (simp add: sample_complete sample_agent_def)
  note a1 = conversation_append_only[where env = "sample_env []" and self = sample_agent,
      THEN conjunct1, THEN mp, OF h1]
  note a2 = conversation_append_only[where env = "sample_env [Some plain_reply]"
      and self = sample_agent, THEN conjunct2, THEN conjunct1, THEN mp, OF h2]
  note a3 = conversation_append_only[where env = "sample_env [Some plain_reply]"
      and self = sample_agent and original = "sample_plan 35" and max_steps = 1,
      THEN conjunct2, THEN conjunct2]
  from a1 a2 a3 show ?thesis by (intro conjI)
qed

end
